theory Spec2Isabelle
  imports Complex_Main
begin

section \<open>Data model (types/exchange.ts, types/config.ts)\<close>

text \<open>
  The engine is TypeScript. A \<open>number\<close> is modelled by a real: rounding of IEEE
  doubles is not part of the model, and every statement below that divides by a price
  assumes the price is nonzero, where real division and the division of the program agree.
  The one place where the program relies on \<open>Infinity\<close> is the timeout deadline of a
  pair, which therefore has a type of its own.

  Field names carry a prefix per interface (\<open>tk_\<close>, \<open>op_\<close>, \<open>pos_\<close>, \<open>pair_\<close>,
  \<open>err_\<close>), since several interfaces of the program share names such as \<open>symbol\<close>.
\<close>

datatype ExchangeName = Binance | Mexc

datatype PositionSide = LONG | SHORT

datatype PositionStatus = OPEN | CLOSED | TIMEOUT_CLOSED | CLOSED_BY_CONVERGENCE

datatype CloseReason = CONVERGENCE | TIMEOUT | MANUAL | FORCE_SHUTDOWN

text \<open>The reasons that the program passes to \<open>recordSkippedOpportunity\<close>.\<close>

datatype SkipReason =
    RATE_LIMIT_PENDING
  | INSUFFICIENT_BALANCE
  | POSITION_SIZE_TOO_LARGE
  | MAX_POSITIONS_REACHED
  | ORDER_CREATION_FAILED
  | NO_FREE_SLOTS

datatype Operation = SET_LEVERAGE | OPEN_LONG | OPEN_SHORT | CLOSE_LONG | CLOSE_SHORT | GET_BALANCE

text \<open>A \<open>number\<close> that may be \<open>Infinity\<close> (the field \<open>timeoutAt\<close>).\<close>

datatype Deadline = At real | Infinity

text \<open>\<open>now >= pair.timeoutAt\<close>\<close>

fun reached :: "real \<Rightarrow> Deadline \<Rightarrow> bool" where
  "reached now (At t) = (t \<le> now)"
| "reached now Infinity = False"

record TickerPrice =
  tk_symbol :: string
  tk_price :: real
  tk_bid :: real
  tk_ask :: real
  tk_bidQty :: "real option"
  tk_askQty :: "real option"
  tk_timestamp :: real
  tk_exchange :: ExchangeName

record ArbitrageOpportunity =
  op_symbol :: string
  op_buyExchange :: ExchangeName
  op_sellExchange :: ExchangeName
  op_buyPrice :: real
  op_sellPrice :: real
  op_buyQtyAvailable :: "real option"
  op_sellQtyAvailable :: "real option"
  op_spreadPercent :: real
  op_profitPercent :: real
  op_timestamp :: real

record Position =
  pos_id :: string
  pos_symbol :: string
  pos_exchange :: ExchangeName
  pos_side :: PositionSide
  pos_entryPrice :: real
  pos_exitPrice :: "real option"
  pos_quantity :: real
  pos_sizeUSD :: real
  pos_leverage :: real
  pos_status :: PositionStatus
  pos_openTime :: real
  pos_closeTime :: "real option"
  pos_pnl :: "real option"
  pos_pnlPercent :: "real option"

text \<open>
  The field \<open>priceHistory\<close> of a pair is written by \<open>recordPriceHistory\<close> only, which
  is a reporting timer outside the operations modelled here; it is left out.
\<close>

record PositionPair =
  pair_id :: string
  pair_symbol :: string
  pair_longPosition :: Position
  pair_shortPosition :: Position
  pair_openSpread :: real
  pair_currentSpread :: "real option"
  pair_expectedProfit :: real
  pair_actualProfit :: "real option"
  pair_status :: PositionStatus
  pair_openTime :: real
  pair_closeTime :: "real option"
  pair_timeoutAt :: Deadline
  pair_closeReason :: "CloseReason option"
  pair_currentLongPrice :: "real option"
  pair_currentShortPrice :: "real option"
  pair_originalBinancePrice :: "real option"
  pair_originalMexcPrice :: "real option"
  pair_priceDiffPercent :: "real option"

text \<open>
  A \<open>TradingError\<close>. Its \<open>errorCode\<close> (a regular expression over the message) and its
  \<open>context\<close> (a formatted string) are presentation only and are left out.
\<close>

record TradingError =
  err_timestamp :: real
  err_symbol :: string
  err_operation :: Operation
  err_exchange :: ExchangeName
  err_errorMessage :: string

text \<open>
  The configuration. Its declaration (types/config.ts) is not part of the sources at hand,
  so the record lists the settings that the program reads, \<open>config.trading.enabled\<close>
  as \<open>trading_enabled\<close> and so on.
\<close>

record Config =
  trading_enabled :: bool
  trading_testMode :: bool
  trading_testBalanceUSD :: real
  trading_positionSizeUSD :: real
  trading_maxOpenPositions :: real
  trading_positionTimeoutSeconds :: real
  trading_leverage :: real
  trading_closeOnSpreadConvergence :: bool
  trading_priceConvergencePercent :: real
  arbitrage_minSpreadPercent :: real
  fees_binance_taker :: real
  fees_mexc_taker :: real
  slippage_percent :: real

record TestStats =
  totalTrades :: nat
  profitableTrades :: nat
  losingTrades :: nat
  totalProfit :: real
  totalLoss :: real

text \<open>What the price getter returns: \<open>{ buyPrice, sellPrice }\<close>.\<close>

record Prices =
  pr_buyPrice :: real
  pr_sellPrice :: real

section \<open>The execution price simulator\<close>

record Execution =
  avgPrice :: real
  slippageCost :: real
  fullFill :: bool

text \<open>
  \<open>calculateExecutionPrice\<close> (the same text in both versions of the executor). The
  \<open>details\<close> string of the result is \<open>'Full Fill'\<close> in the first branch and a formatted
  \<open>'Partial: ...'\<close> in the second; the model keeps which of the two it is.
\<close>

definition calculateExecutionPrice :: "Config \<Rightarrow> real \<Rightarrow> real \<Rightarrow> real option \<Rightarrow> Execution" where
  "calculateExecutionPrice cfg requestedUsd basePrice availableQty =
    (let realQty = (case availableQty of Some q \<Rightarrow> q | None \<Rightarrow> 10000 / basePrice);
         realDepthUsd = realQty * basePrice
     in if realDepthUsd \<ge> requestedUsd
        then \<lparr> avgPrice = basePrice, slippageCost = 0, fullFill = True \<rparr>
        else
          (let filledReal = realDepthUsd;
               filledSlippage = requestedUsd - realDepthUsd;
               penaltyPrice = basePrice * (1 + (slippage_percent cfg / 100));
               avg = ((filledReal * basePrice) + (filledSlippage * penaltyPrice)) / requestedUsd;
               idealCost = requestedUsd / basePrice;
               realCost = requestedUsd / avg
           in \<lparr> avgPrice = avg,
                slippageCost = (idealCost - realCost) * basePrice,
                fullFill = False \<rparr>))"

section \<open>Remote calls and suspension\<close>

text \<open>
  The executor is a class of \<open>async\<close> methods on a single-threaded event loop. A method
  runs without interruption until it awaits a remote call (an order, a leverage setting,
  a balance query) or a timer; it is resumed later with the outcome of the call, and in
  between other callbacks may run on the same object. A method is therefore modelled as a
  function from the state of the object to a \<open>step\<close>: either it has finished, with the
  new state, or it is suspended at a request, with the state it leaves behind and a
  continuation that takes the time of the resumption, the outcome of the call and the
  state of the object at that moment. An \<open>await\<close> of another method of the same
  object that never reaches a remote call continues in the same turn of the event loop
  and is no suspension.

  \<open>Date.now()\<close> is the time given at the call or at the resumption, \<open>randomUUID()\<close>
  is a parameter. The logger and the terminal dashboard are observers and are left out.
\<close>

datatype OrderSide = BUY | SELL

datatype request =
    Sleep real
  | BinanceSetLeverage string real
  | MexcSetLeverage string real
  | BinanceCreateMarketOrder string OrderSide real bool
  | MexcCreateMarketOrder string int int
  | BinanceGetBalance
  | MexcGetBalance

text \<open>A call returns (\<open>getBalance\<close> with a number) or throws an error with a message.\<close>

datatype response = Resolved real | Rejected string

datatype 's step =
    Finished 's
  | Suspended 's request "real \<Rightarrow> response \<Rightarrow> 's \<Rightarrow> 's step"

primrec stateOf :: "'s step \<Rightarrow> 's" where
  "stateOf (Finished s) = s"
| "stateOf (Suspended s req k) = s"

primrec isFinished :: "'s step \<Rightarrow> bool" where
  "isFinished (Finished s) = True"
| "isFinished (Suspended s req k) = False"

text \<open>\<open>await m; rest\<close> for a method \<open>m\<close> of the same object.\<close>

primrec bindStep :: "'s step \<Rightarrow> real \<Rightarrow> (real \<Rightarrow> 's \<Rightarrow> 's step) \<Rightarrow> 's step" where
  "bindStep (Finished s) = (\<lambda>t0 rest. rest t0 s)"
| "bindStep (Suspended s req k) =
     (\<lambda>t0 rest. Suspended s req (\<lambda>t r s'. bindStep (k t r s') t rest))"

text \<open>
  A run of one method with nothing else in between: the calls are answered in order from
  a list of (time, outcome), and the run records each request with its answer. When the
  answers run out the run stops at the suspension it has reached.
\<close>

type_synonym trace = "(request \<times> real \<times> response) list"

fun run :: "(real \<times> response) list \<Rightarrow> 's step \<Rightarrow> trace \<Rightarrow> 's step \<times> trace" where
  "run [] s tr = (s, tr)"
| "run (a # as) (Finished s) tr = (Finished s, tr)"
| "run (a # as) (Suspended s req k) tr = run as (k (fst a) (snd a) s) (tr @ [(req, fst a, snd a)])"

section \<open>The trade executor (position ledger and order coordinator)\<close>

text \<open>
  The state of a \<open>TradeExecutor\<close>. \<open>binance\<close> and \<open>mexc\<close> say whether the venue
  client was passed to the constructor. \<open>openPositions\<close> is a JavaScript \<open>Map\<close>: an
  association list in insertion order with one entry per key.

  The method \<open>recordSkippedOpportunity\<close> has an empty body in the program, so the array
  \<open>skippedOpportunities\<close> is never written and is not a field here. To make the reason
  of a skip observable, the model logs every call of the method, with its arguments, in
  the field \<open>skipCalls\<close>; nothing in the model reads that field.
\<close>

record TradeExecutor =
  config :: Config
  binance :: bool
  mexc :: bool
  openPositions :: "(string \<times> PositionPair) list"
  closedPositions :: "PositionPair list"
  tradingErrors :: "TradingError list"
  getPricesFn :: "(string \<Rightarrow> Prices option) option"
  currentBalance :: real
  initialBalance :: real
  testStats :: TestStats
  lastOrderTime :: real
  pendingOrders :: int
  skipCalls :: "(ArbitrageOpportunity \<times> SkipReason) list"

text \<open>\<open>Map.set\<close>: replaces the value of a present key in place, appends a new key.\<close>

fun mapSet :: "string \<Rightarrow> 'v \<Rightarrow> (string \<times> 'v) list \<Rightarrow> (string \<times> 'v) list" where
  "mapSet k v [] = [(k, v)]"
| "mapSet k v (p # ps) = (if fst p = k then (k, v) # ps else p # mapSet k v ps)"

definition mapDelete :: "string \<Rightarrow> (string \<times> 'v) list \<Rightarrow> (string \<times> 'v) list" where
  "mapDelete k ps = filter (\<lambda>p. fst p \<noteq> k) ps"

text \<open>\<open>String.prototype.replace\<close> with a string pattern: the first occurrence only.\<close>

fun replaceFirst :: "string \<Rightarrow> string \<Rightarrow> string \<Rightarrow> string" where
  "replaceFirst pat rep [] = (if pat = [] then rep else [])"
| "replaceFirst pat rep (c # cs) =
     (if take (length pat) (c # cs) = pat then rep @ drop (length pat) (c # cs)
      else c # replaceFirst pat rep cs)"

definition MIN_ORDER_INTERVAL_MS :: real where
  "MIN_ORDER_INTERVAL_MS = 2000"

definition constructor :: "Config \<Rightarrow> bool \<Rightarrow> bool \<Rightarrow> TradeExecutor" where
  "constructor cfg withBinance withMexc =
    \<lparr> config = cfg, binance = withBinance, mexc = withMexc,
      openPositions = [], closedPositions = [], tradingErrors = [],
      getPricesFn = None,
      currentBalance = trading_testBalanceUSD cfg,
      initialBalance = trading_testBalanceUSD cfg,
      testStats = \<lparr> totalTrades = 0, profitableTrades = 0, losingTrades = 0,
                    totalProfit = 0, totalLoss = 0 \<rparr>,
      lastOrderTime = 0, pendingOrders = 0, skipCalls = [] \<rparr>"

definition setPriceGetter :: "(string \<Rightarrow> Prices option) \<Rightarrow> TradeExecutor \<Rightarrow> TradeExecutor" where
  "setPriceGetter fn st = st\<lparr>getPricesFn := Some fn\<rparr>"

definition recordSkippedOpportunity ::
  "ArbitrageOpportunity \<Rightarrow> SkipReason \<Rightarrow> TradeExecutor \<Rightarrow> TradeExecutor" where
  "recordSkippedOpportunity opp reason st = st\<lparr>skipCalls := skipCalls st @ [(opp, reason)]\<rparr>"

definition recordTradingError :: "TradingError \<Rightarrow> TradeExecutor \<Rightarrow> TradeExecutor" where
  "recordTradingError e st = st\<lparr>tradingErrors := tradingErrors st @ [e]\<rparr>"

definition canOpenNewPosition :: "TradeExecutor \<Rightarrow> bool" where
  "canOpenNewPosition st =
    (if \<not> trading_enabled (config st) then False
     else real (length (openPositions st)) < trading_maxOpenPositions (config st))"

definition checkPriceConvergence :: "Config \<Rightarrow> real \<Rightarrow> real \<Rightarrow> bool" where
  "checkPriceConvergence cfg price1 price2 =
    (let priceDiffPercent = \<bar>price1 - price2\<bar> / min price1 price2 * 100
     in priceDiffPercent \<le> trading_priceConvergencePercent cfg)"

subsection \<open>Balance reconciliation in live mode\<close>

text \<open>
  The block that \<open>openPositionPair\<close> and \<open>closePositionPair\<close> share word for word:
  ask each venue that has a client for its balance (a failure is recorded and leaves 0),
  then take the minimum of two positive balances, or the one that is positive.
\<close>

definition setBalanceFromVenues :: "real \<Rightarrow> real \<Rightarrow> TradeExecutor \<Rightarrow> TradeExecutor" where
  "setBalanceFromVenues binanceBalance mexcBalance st =
    (if binanceBalance > 0 \<and> mexcBalance > 0
       then st\<lparr>currentBalance := min binanceBalance mexcBalance\<rparr>
     else if binanceBalance > 0 then st\<lparr>currentBalance := binanceBalance\<rparr>
     else if mexcBalance > 0 then st\<lparr>currentBalance := mexcBalance\<rparr>
     else st)"

definition fetchMexcBalance ::
  "string \<Rightarrow> real \<Rightarrow> (real \<Rightarrow> TradeExecutor \<Rightarrow> TradeExecutor step) \<Rightarrow>
   real \<Rightarrow> TradeExecutor \<Rightarrow> TradeExecutor step" where
  "fetchMexcBalance symb binanceBalance rest now st =
    (if mexc st then
       Suspended st MexcGetBalance (\<lambda>t r s.
         case r of
           Resolved mexcBalance \<Rightarrow> rest t (setBalanceFromVenues binanceBalance mexcBalance s)
         | Rejected msg \<Rightarrow>
             rest t (setBalanceFromVenues binanceBalance 0
               (recordTradingError \<lparr> err_timestamp = t, err_symbol = symb,
                  err_operation = GET_BALANCE, err_exchange = Mexc, err_errorMessage = msg \<rparr> s)))
     else rest now (setBalanceFromVenues binanceBalance 0 st))"

definition updateRealBalance ::
  "string \<Rightarrow> (real \<Rightarrow> TradeExecutor \<Rightarrow> TradeExecutor step) \<Rightarrow>
   real \<Rightarrow> TradeExecutor \<Rightarrow> TradeExecutor step" where
  "updateRealBalance symb rest now st =
    (if binance st then
       Suspended st BinanceGetBalance (\<lambda>t r s.
         case r of
           Resolved binanceBalance \<Rightarrow> fetchMexcBalance symb binanceBalance rest t s
         | Rejected msg \<Rightarrow>
             fetchMexcBalance symb 0 rest t
               (recordTradingError \<lparr> err_timestamp = t, err_symbol = symb,
                  err_operation = GET_BALANCE, err_exchange = Binance, err_errorMessage = msg \<rparr> s))
     else fetchMexcBalance symb 0 rest now st)"

subsection \<open>Opening a pair\<close>

text \<open>
  \<open>openPositionPair\<close>, written from its last part to its first: each definition is the
  method from one point of its text to its end. The three identifiers are the results of
  the three calls of \<open>randomUUID()\<close>, \<open>now\<close> is the constant that the method reads
  from the clock before the rate-limit wait.
\<close>

definition makeLongPosition :: "Config \<Rightarrow> string \<Rightarrow> real \<Rightarrow> ArbitrageOpportunity \<Rightarrow> Position" where
  "makeLongPosition cfg longId now opp =
    (let longExec = calculateExecutionPrice cfg (trading_positionSizeUSD cfg)
                      (op_buyPrice opp) (op_buyQtyAvailable opp)
     in \<lparr> pos_id = longId, pos_symbol = op_symbol opp, pos_exchange = op_buyExchange opp,
          pos_side = LONG, pos_entryPrice = avgPrice longExec, pos_exitPrice = None,
          pos_quantity = trading_positionSizeUSD cfg / avgPrice longExec,
          pos_sizeUSD = trading_positionSizeUSD cfg, pos_leverage = trading_leverage cfg,
          pos_status = OPEN, pos_openTime = now, pos_closeTime = None,
          pos_pnl = None, pos_pnlPercent = None \<rparr>)"

definition makeShortPosition :: "Config \<Rightarrow> string \<Rightarrow> real \<Rightarrow> ArbitrageOpportunity \<Rightarrow> Position" where
  "makeShortPosition cfg shortId now opp =
    (let shortExec = calculateExecutionPrice cfg (trading_positionSizeUSD cfg)
                       (op_sellPrice opp) (op_sellQtyAvailable opp)
     in \<lparr> pos_id = shortId, pos_symbol = op_symbol opp, pos_exchange = op_sellExchange opp,
          pos_side = SHORT, pos_entryPrice = avgPrice shortExec, pos_exitPrice = None,
          pos_quantity = trading_positionSizeUSD cfg / avgPrice shortExec,
          pos_sizeUSD = trading_positionSizeUSD cfg, pos_leverage = trading_leverage cfg,
          pos_status = OPEN, pos_openTime = now, pos_closeTime = None,
          pos_pnl = None, pos_pnlPercent = None \<rparr>)"

definition makePositionPair ::
  "Config \<Rightarrow> string \<Rightarrow> string \<Rightarrow> string \<Rightarrow> real \<Rightarrow> ArbitrageOpportunity \<Rightarrow> PositionPair" where
  "makePositionPair cfg pairId longId shortId now opp =
    \<lparr> pair_id = pairId, pair_symbol = op_symbol opp,
      pair_longPosition = makeLongPosition cfg longId now opp,
      pair_shortPosition = makeShortPosition cfg shortId now opp,
      pair_openSpread = op_spreadPercent opp, pair_currentSpread = None,
      pair_expectedProfit = op_profitPercent opp, pair_actualProfit = None,
      pair_status = OPEN, pair_openTime = now, pair_closeTime = None,
      pair_timeoutAt =
        (if trading_positionTimeoutSeconds cfg = 0 then Infinity
         else At (now + trading_positionTimeoutSeconds cfg * 1000)),
      pair_closeReason = None, pair_currentLongPrice = None, pair_currentShortPrice = None,
      pair_originalBinancePrice =
        Some (if op_buyExchange opp = Binance then op_buyPrice opp else op_sellPrice opp),
      pair_originalMexcPrice =
        Some (if op_buyExchange opp = Mexc then op_buyPrice opp else op_sellPrice opp),
      pair_priceDiffPercent = Some (op_spreadPercent opp) \<rparr>"

text \<open>From the construction of the \<open>PositionPair\<close> to the end of the method.\<close>

definition openCommit ::
  "ArbitrageOpportunity \<Rightarrow> PositionPair \<Rightarrow> real \<Rightarrow> TradeExecutor \<Rightarrow> TradeExecutor step" where
  "openCommit opp positionPair now st =
    (let requiredCapital = trading_positionSizeUSD (config st) * 2;
         s1 = st\<lparr>openPositions := mapSet (pair_id positionPair) positionPair (openPositions st)\<rparr>
     in if trading_testMode (config st)
        then Finished (s1\<lparr>currentBalance := currentBalance s1 - requiredCapital\<rparr>)
        else updateRealBalance (op_symbol opp) (\<lambda>t s. Finished s) now s1)"

text \<open>The outer \<open>catch\<close> of the live block.\<close>

definition orderCreationFailed :: "ArbitrageOpportunity \<Rightarrow> TradeExecutor \<Rightarrow> TradeExecutor" where
  "orderCreationFailed opp st =
    (let s1 = recordSkippedOpportunity opp ORDER_CREATION_FAILED st
     in s1\<lparr>pendingOrders := pendingOrders s1 - 1\<rparr>)"

text \<open>The end of the live block after both orders.\<close>

definition ordersCreated :: "real \<Rightarrow> TradeExecutor \<Rightarrow> TradeExecutor" where
  "ordersCreated t st = st\<lparr>lastOrderTime := t, pendingOrders := pendingOrders st - 1\<rparr>"

text \<open>From the short leg on.\<close>

definition openShortLeg ::
  "ArbitrageOpportunity \<Rightarrow> PositionPair \<Rightarrow> real \<Rightarrow> TradeExecutor \<Rightarrow> TradeExecutor step" where
  "openShortLeg opp positionPair now st =
    (let shortPosition = pair_shortPosition positionPair;
         answered = (\<lambda>t r s.
           case r of
             Resolved v \<Rightarrow> openCommit opp positionPair t (ordersCreated t s)
           | Rejected msg \<Rightarrow>
               Finished (orderCreationFailed opp
                 (recordTradingError \<lparr> err_timestamp = t, err_symbol = op_symbol opp,
                    err_operation = OPEN_SHORT, err_exchange = pos_exchange shortPosition,
                    err_errorMessage = msg \<rparr> s)))
     in if pos_exchange shortPosition = Binance \<and> binance st then
          Suspended st
            (BinanceCreateMarketOrder (op_symbol opp) SELL (pos_quantity shortPosition) False)
            answered
        else if pos_exchange shortPosition = Mexc \<and> mexc st then
          Suspended st
            (MexcCreateMarketOrder (replaceFirst ''USDT'' ''_USDT'' (op_symbol opp)) 3
               \<lfloor>pos_quantity shortPosition\<rfloor>)
            answered
        else openCommit opp positionPair now (ordersCreated now st))"

text \<open>The delay of 500 ms between the two orders.\<close>

definition openInterLegDelay ::
  "ArbitrageOpportunity \<Rightarrow> PositionPair \<Rightarrow> TradeExecutor \<Rightarrow> TradeExecutor step" where
  "openInterLegDelay opp positionPair st =
    Suspended st (Sleep 500) (\<lambda>t r s. openShortLeg opp positionPair t s)"

text \<open>From the long leg on: a rejected long order is recorded and thrown to the outer \<open>catch\<close>.\<close>

definition openLongLeg ::
  "ArbitrageOpportunity \<Rightarrow> PositionPair \<Rightarrow> TradeExecutor \<Rightarrow> TradeExecutor step" where
  "openLongLeg opp positionPair st =
    (let longPosition = pair_longPosition positionPair;
         answered = (\<lambda>t r s.
           case r of
             Resolved v \<Rightarrow> openInterLegDelay opp positionPair s
           | Rejected msg \<Rightarrow>
               Finished (orderCreationFailed opp
                 (recordTradingError \<lparr> err_timestamp = t, err_symbol = op_symbol opp,
                    err_operation = OPEN_LONG, err_exchange = pos_exchange longPosition,
                    err_errorMessage = msg \<rparr> s)))
     in if pos_exchange longPosition = Binance \<and> binance st then
          Suspended st
            (BinanceCreateMarketOrder (op_symbol opp) BUY (pos_quantity longPosition) False)
            answered
        else if pos_exchange longPosition = Mexc \<and> mexc st then
          Suspended st
            (MexcCreateMarketOrder (replaceFirst ''USDT'' ''_USDT'' (op_symbol opp)) 1
               \<lfloor>pos_quantity longPosition\<rfloor>)
            answered
        else openInterLegDelay opp positionPair st)"

text \<open>
  The two leverage blocks. Each asks the venue once per leg that it holds; a failure is
  recorded, skips the rest of its block and is not fatal.
\<close>

definition setMexcLeverage ::
  "ArbitrageOpportunity \<Rightarrow> PositionPair \<Rightarrow> TradeExecutor \<Rightarrow> TradeExecutor step" where
  "setMexcLeverage opp positionPair st =
    (let mexcSymbol = replaceFirst ''USDT'' ''_USDT'' (op_symbol opp);
         failed = (\<lambda>t msg s.
           openLongLeg opp positionPair
             (recordTradingError \<lparr> err_timestamp = t, err_symbol = op_symbol opp,
                err_operation = SET_LEVERAGE, err_exchange = Mexc, err_errorMessage = msg \<rparr> s));
         forShort = (\<lambda>s.
           if mexc s \<and> pos_exchange (pair_shortPosition positionPair) = Mexc then
             Suspended s (MexcSetLeverage mexcSymbol (trading_leverage (config s))) (\<lambda>t r s'.
               case r of Resolved v \<Rightarrow> openLongLeg opp positionPair s'
                       | Rejected msg \<Rightarrow> failed t msg s')
           else openLongLeg opp positionPair s)
     in if mexc st \<and> pos_exchange (pair_longPosition positionPair) = Mexc then
          Suspended st (MexcSetLeverage mexcSymbol (trading_leverage (config st))) (\<lambda>t r s.
            case r of Resolved v \<Rightarrow> forShort s
                    | Rejected msg \<Rightarrow> failed t msg s)
        else forShort st)"

definition setBinanceLeverage ::
  "ArbitrageOpportunity \<Rightarrow> PositionPair \<Rightarrow> TradeExecutor \<Rightarrow> TradeExecutor step" where
  "setBinanceLeverage opp positionPair st =
    (let failed = (\<lambda>t msg s.
           setMexcLeverage opp positionPair
             (recordTradingError \<lparr> err_timestamp = t, err_symbol = op_symbol opp,
                err_operation = SET_LEVERAGE, err_exchange = Binance, err_errorMessage = msg \<rparr> s));
         forShort = (\<lambda>s.
           if binance s \<and> pos_exchange (pair_shortPosition positionPair) = Binance then
             Suspended s (BinanceSetLeverage (op_symbol opp) (trading_leverage (config s))) (\<lambda>t r s'.
               case r of Resolved v \<Rightarrow> setMexcLeverage opp positionPair s'
                       | Rejected msg \<Rightarrow> failed t msg s')
           else setMexcLeverage opp positionPair s)
     in if binance st \<and> pos_exchange (pair_longPosition positionPair) = Binance then
          Suspended st (BinanceSetLeverage (op_symbol opp) (trading_leverage (config st))) (\<lambda>t r s.
            case r of Resolved v \<Rightarrow> forShort s
                    | Rejected msg \<Rightarrow> failed t msg s)
        else forShort st)"

text \<open>The live block from its start: the guard is raised, then the two safety checks.\<close>

definition openLive ::
  "ArbitrageOpportunity \<Rightarrow> PositionPair \<Rightarrow> TradeExecutor \<Rightarrow> TradeExecutor step" where
  "openLive opp positionPair st =
    (let s1 = st\<lparr>pendingOrders := pendingOrders st + 1\<rparr>
     in if trading_positionSizeUSD (config s1) > 100 then
          (let s2 = recordSkippedOpportunity opp POSITION_SIZE_TOO_LARGE s1
           in Finished (s2\<lparr>pendingOrders := pendingOrders s2 - 1\<rparr>))
        else if real (length (openPositions s1)) \<ge> trading_maxOpenPositions (config s1) then
          (let s2 = recordSkippedOpportunity opp MAX_POSITIONS_REACHED s1
           in Finished (s2\<lparr>pendingOrders := pendingOrders s2 - 1\<rparr>))
        else setBinanceLeverage opp positionPair s1)"

text \<open>From the capital check on, at time \<open>t\<close>; \<open>now\<close> is the time read before the wait.\<close>

definition openAfterWait ::
  "string \<Rightarrow> string \<Rightarrow> string \<Rightarrow> real \<Rightarrow> ArbitrageOpportunity \<Rightarrow> real \<Rightarrow>
   TradeExecutor \<Rightarrow> TradeExecutor step" where
  "openAfterWait pairId longId shortId now opp t st =
    (let requiredCapital = trading_positionSizeUSD (config st) * 2
     in if currentBalance st < requiredCapital then
          Finished (recordSkippedOpportunity opp INSUFFICIENT_BALANCE st)
        else
          (let positionPair = makePositionPair (config st) pairId longId shortId now opp
           in if \<not> trading_testMode (config st) then openLive opp positionPair st
              else openCommit opp positionPair t st))"

definition openPositionPair ::
  "string \<Rightarrow> string \<Rightarrow> string \<Rightarrow> ArbitrageOpportunity \<Rightarrow> real \<Rightarrow>
   TradeExecutor \<Rightarrow> TradeExecutor step" where
  "openPositionPair pairId longId shortId opp now st =
    (if pendingOrders st > 0 then
       Finished (recordSkippedOpportunity opp RATE_LIMIT_PENDING st)
     else
       (let timeSinceLastOrder = now - lastOrderTime st
        in if lastOrderTime st > 0 \<and> timeSinceLastOrder < MIN_ORDER_INTERVAL_MS then
             Suspended st (Sleep (MIN_ORDER_INTERVAL_MS - timeSinceLastOrder))
               (\<lambda>t r s. openAfterWait pairId longId shortId now opp t s)
           else openAfterWait pairId longId shortId now opp now st))"

subsection \<open>Closing a pair\<close>

definition updateStats :: "real \<Rightarrow> TradeExecutor \<Rightarrow> TradeExecutor" where
  "updateStats totalPnlUSD st =
    (let stats = (testStats st)\<lparr>totalTrades := totalTrades (testStats st) + 1\<rparr>
     in if totalPnlUSD > 0 then
          st\<lparr>testStats := stats\<lparr>profitableTrades := profitableTrades stats + 1,
                                 totalProfit := totalProfit stats + totalPnlUSD\<rparr>\<rparr>
        else
          st\<lparr>testStats := stats\<lparr>losingTrades := losingTrades stats + 1,
                                 totalLoss := totalLoss stats + \<bar>totalPnlUSD\<bar>\<rparr>\<rparr>)"

text \<open>
  From the removal of the pair from the map to the end of the method. \<open>pair\<close> is the
  object that the method holds, with the fields it has set.
\<close>

definition closeCommit ::
  "string \<Rightarrow> PositionPair \<Rightarrow> real \<Rightarrow> real \<Rightarrow> TradeExecutor \<Rightarrow> TradeExecutor step" where
  "closeCommit pairId pair totalPnlUSD now st =
    (let s1 = st\<lparr>openPositions := mapDelete pairId (openPositions st),
                  closedPositions := closedPositions st @ [pair]\<rparr>
     in if trading_testMode (config s1) then
          Finished (updateStats totalPnlUSD
            (s1\<lparr>currentBalance :=
                  currentBalance s1 + ((trading_positionSizeUSD (config s1) * 2) + totalPnlUSD)\<rparr>))
        else updateRealBalance (pair_symbol pair) (\<lambda>t s. Finished (updateStats totalPnlUSD s)) now s1)"

text \<open>The short leg is closed by a reduce-only buy; a failure is recorded and not fatal.\<close>

definition closeShortLeg ::
  "string \<Rightarrow> PositionPair \<Rightarrow> real \<Rightarrow> real \<Rightarrow> TradeExecutor \<Rightarrow> TradeExecutor step" where
  "closeShortLeg pairId pair totalPnlUSD now st =
    (let shortPosition = pair_shortPosition pair;
         answered = (\<lambda>t r s.
           case r of
             Resolved v \<Rightarrow> closeCommit pairId pair totalPnlUSD t s
           | Rejected msg \<Rightarrow>
               closeCommit pairId pair totalPnlUSD t
                 (recordTradingError \<lparr> err_timestamp = t, err_symbol = pair_symbol pair,
                    err_operation = CLOSE_SHORT, err_exchange = pos_exchange shortPosition,
                    err_errorMessage = msg \<rparr> s))
     in if pos_exchange shortPosition = Binance \<and> binance st then
          Suspended st
            (BinanceCreateMarketOrder (pair_symbol pair) BUY (pos_quantity shortPosition) True)
            answered
        else if pos_exchange shortPosition = Mexc \<and> mexc st then
          Suspended st
            (MexcCreateMarketOrder (replaceFirst ''USDT'' ''_USDT'' (pair_symbol pair)) 2
               \<lfloor>pos_quantity shortPosition\<rfloor>)
            answered
        else closeCommit pairId pair totalPnlUSD now st)"

definition closeInterLegDelay ::
  "string \<Rightarrow> PositionPair \<Rightarrow> real \<Rightarrow> TradeExecutor \<Rightarrow> TradeExecutor step" where
  "closeInterLegDelay pairId pair totalPnlUSD st =
    Suspended st (Sleep 500) (\<lambda>t r s. closeShortLeg pairId pair totalPnlUSD t s)"

text \<open>The long leg is closed by a reduce-only sell; a failure is recorded and not fatal.\<close>

definition closeLongLeg ::
  "string \<Rightarrow> PositionPair \<Rightarrow> real \<Rightarrow> TradeExecutor \<Rightarrow> TradeExecutor step" where
  "closeLongLeg pairId pair totalPnlUSD st =
    (let longPosition = pair_longPosition pair;
         answered = (\<lambda>t r s.
           case r of
             Resolved v \<Rightarrow> closeInterLegDelay pairId pair totalPnlUSD s
           | Rejected msg \<Rightarrow>
               closeInterLegDelay pairId pair totalPnlUSD
                 (recordTradingError \<lparr> err_timestamp = t, err_symbol = pair_symbol pair,
                    err_operation = CLOSE_LONG, err_exchange = pos_exchange longPosition,
                    err_errorMessage = msg \<rparr> s))
     in if pos_exchange longPosition = Binance \<and> binance st then
          Suspended st
            (BinanceCreateMarketOrder (pair_symbol pair) SELL (pos_quantity longPosition) True)
            answered
        else if pos_exchange longPosition = Mexc \<and> mexc st then
          Suspended st
            (MexcCreateMarketOrder (replaceFirst ''USDT'' ''_USDT'' (pair_symbol pair)) 4
               \<lfloor>pos_quantity longPosition\<rfloor>)
            answered
        else closeInterLegDelay pairId pair totalPnlUSD st)"

text \<open>The profit and loss of a close, in percent and in USD.\<close>

definition longPnlPercentOf :: "PositionPair \<Rightarrow> real \<Rightarrow> real" where
  "longPnlPercentOf pair currentBuyPrice =
    ((currentBuyPrice - pos_entryPrice (pair_longPosition pair))
       / pos_entryPrice (pair_longPosition pair)) * 100"

definition shortPnlPercentOf :: "PositionPair \<Rightarrow> real \<Rightarrow> real" where
  "shortPnlPercentOf pair currentSellPrice =
    ((pos_entryPrice (pair_shortPosition pair) - currentSellPrice)
       / pos_entryPrice (pair_shortPosition pair)) * 100"

definition totalPnlPercentOf :: "Config \<Rightarrow> PositionPair \<Rightarrow> real \<Rightarrow> real \<Rightarrow> real" where
  "totalPnlPercentOf cfg pair currentBuyPrice currentSellPrice =
    (let fees = (fees_binance_taker cfg + fees_mexc_taker cfg) * 2
     in ((longPnlPercentOf pair currentBuyPrice + shortPnlPercentOf pair currentSellPrice) / 2) - fees)"

definition totalPnlUSDOf :: "Config \<Rightarrow> PositionPair \<Rightarrow> real \<Rightarrow> real \<Rightarrow> real" where
  "totalPnlUSDOf cfg pair currentBuyPrice currentSellPrice =
    (totalPnlPercentOf cfg pair currentBuyPrice currentSellPrice / 100)
      * (trading_positionSizeUSD cfg * 2)"

text \<open>The fields that \<open>closePositionPair\<close> sets on the pair and its two positions.\<close>

definition closedPair ::
  "Config \<Rightarrow> PositionPair \<Rightarrow> CloseReason \<Rightarrow> real \<Rightarrow> real \<Rightarrow> real \<Rightarrow> PositionPair" where
  "closedPair cfg pair reason currentBuyPrice currentSellPrice now =
    pair\<lparr> pair_status := (if reason = TIMEOUT then TIMEOUT_CLOSED else CLOSED),
          pair_closeTime := Some now,
          pair_closeReason := Some reason,
          pair_actualProfit := Some (totalPnlPercentOf cfg pair currentBuyPrice currentSellPrice),
          pair_longPosition := (pair_longPosition pair)
            \<lparr> pos_exitPrice := Some currentBuyPrice,
              pos_pnl := Some ((longPnlPercentOf pair currentBuyPrice / 100)
                                * trading_positionSizeUSD cfg),
              pos_pnlPercent := Some (longPnlPercentOf pair currentBuyPrice) \<rparr>,
          pair_shortPosition := (pair_shortPosition pair)
            \<lparr> pos_exitPrice := Some currentSellPrice,
              pos_pnl := Some ((shortPnlPercentOf pair currentSellPrice / 100)
                                * trading_positionSizeUSD cfg),
              pos_pnlPercent := Some (shortPnlPercentOf pair currentSellPrice) \<rparr> \<rparr>"

text \<open>
  \<open>closePositionPair\<close>. The method sets the fields on the object that the map holds,
  so the entry of the map shows them while the pair is still in the map.
\<close>

definition closePositionPair ::
  "string \<Rightarrow> CloseReason \<Rightarrow> real \<Rightarrow> real \<Rightarrow> real \<Rightarrow> TradeExecutor \<Rightarrow> TradeExecutor step" where
  "closePositionPair pairId reason currentBuyPrice currentSellPrice now st =
    (case map_of (openPositions st) pairId of
       None \<Rightarrow> Finished st
     | Some pair \<Rightarrow>
         (let totalPnlUSD = totalPnlUSDOf (config st) pair currentBuyPrice currentSellPrice;
              closed = closedPair (config st) pair reason currentBuyPrice currentSellPrice now;
              s1 = st\<lparr>openPositions := mapSet pairId closed (openPositions st)\<rparr>
          in if \<not> trading_testMode (config st) then closeLongLeg pairId closed totalPnlUSD s1
             else closeCommit pairId closed totalPnlUSD now s1))"

subsection \<open>Loops over the open positions\<close>

text \<open>
  \<open>for (const [pairId, pair] of this.openPositions.entries())\<close> with a body that may
  await a close. The body runs for the keys that the map holds when the loop starts, in
  order, and reads the entry when its turn comes: an entry that was deleted in between is
  passed over, as the iterator of a \<open>Map\<close> does. (An entry that another callback inserts
  while the loop is suspended would be visited by the iterator and is not visited here;
  no statement below runs a loop across such an insertion.)
\<close>

primrec forEachKey ::
  "(string \<Rightarrow> real \<Rightarrow> 's \<Rightarrow> 's step) \<Rightarrow> string list \<Rightarrow> real \<Rightarrow> 's \<Rightarrow> 's step" where
  "forEachKey body [] = (\<lambda>t s. Finished s)"
| "forEachKey body (k # ks) = (\<lambda>t s. bindStep (body k t s) t (forEachKey body ks))"

text \<open>The fields that \<open>updatePositionSpread\<close> sets on an open pair of the symbol.\<close>

definition refreshedPair :: "PositionPair \<Rightarrow> real \<Rightarrow> real \<Rightarrow> PositionPair" where
  "refreshedPair pair currentBuyPrice currentSellPrice =
    (let currentSpread = ((currentSellPrice - currentBuyPrice) / currentBuyPrice) * 100;
         currentLongPrice =
           (if pos_exchange (pair_longPosition pair) = Binance then currentBuyPrice
            else currentSellPrice);
         currentShortPrice =
           (if pos_exchange (pair_longPosition pair) = Binance then currentSellPrice
            else currentBuyPrice);
         priceDiff = \<bar>currentBuyPrice - currentSellPrice\<bar>
                       / min currentBuyPrice currentSellPrice * 100;
         longPnl = ((currentLongPrice - pos_entryPrice (pair_longPosition pair))
                      / pos_entryPrice (pair_longPosition pair)) * 100;
         shortPnl = ((pos_entryPrice (pair_shortPosition pair) - currentShortPrice)
                       / pos_entryPrice (pair_shortPosition pair)) * 100
     in pair\<lparr> pair_currentSpread := Some currentSpread,
              pair_currentLongPrice := Some currentLongPrice,
              pair_currentShortPrice := Some currentShortPrice,
              pair_priceDiffPercent := Some priceDiff,
              pair_actualProfit := Some ((longPnl + shortPnl) / 2 - 0.12) \<rparr>)"

text \<open>The body of the loop of \<open>updatePositionSpread\<close>.\<close>

definition updateOne ::
  "string \<Rightarrow> real \<Rightarrow> real \<Rightarrow> string \<Rightarrow> real \<Rightarrow> TradeExecutor \<Rightarrow> TradeExecutor step" where
  "updateOne symbol currentBuyPrice currentSellPrice pairId now st =
    (case map_of (openPositions st) pairId of
       None \<Rightarrow> Finished st
     | Some pair \<Rightarrow>
         if pair_symbol pair = symbol \<and> pair_status pair = OPEN then
           (let s1 = st\<lparr>openPositions :=
                          mapSet pairId (refreshedPair pair currentBuyPrice currentSellPrice)
                            (openPositions st)\<rparr>
            in if trading_closeOnSpreadConvergence (config s1) then
                 (if checkPriceConvergence (config s1) currentBuyPrice currentSellPrice then
                    closePositionPair pairId CONVERGENCE currentBuyPrice currentSellPrice now s1
                  else Finished s1)
               else Finished s1)
         else Finished st)"

definition updatePositionSpread ::
  "string \<Rightarrow> real \<Rightarrow> real \<Rightarrow> real \<Rightarrow> TradeExecutor \<Rightarrow> TradeExecutor step" where
  "updatePositionSpread symbol currentBuyPrice currentSellPrice now st =
    forEachKey (updateOne symbol currentBuyPrice currentSellPrice)
      (map fst (openPositions st)) now st"

text \<open>The body of the loop of \<open>checkPositionTimeouts\<close>; \<open>now\<close> is read once, before the loop.\<close>

definition timeoutOne :: "real \<Rightarrow> string \<Rightarrow> real \<Rightarrow> TradeExecutor \<Rightarrow> TradeExecutor step" where
  "timeoutOne now pairId t st =
    (case map_of (openPositions st) pairId of
       None \<Rightarrow> Finished st
     | Some pair \<Rightarrow>
         if reached now (pair_timeoutAt pair) then
           (case getPricesFn st of
              None \<Rightarrow> Finished st
            | Some fn \<Rightarrow>
                (case fn (pair_symbol pair) of
                   None \<Rightarrow> Finished st
                 | Some prices \<Rightarrow>
                     closePositionPair pairId TIMEOUT (pr_buyPrice prices) (pr_sellPrice prices) t st))
         else Finished st)"

definition checkPositionTimeouts :: "real \<Rightarrow> TradeExecutor \<Rightarrow> TradeExecutor step" where
  "checkPositionTimeouts now st =
    forEachKey (timeoutOne now) (map fst (openPositions st)) now st"

section \<open>The arbitrage detector (spread scanner and opportunity gate)\<close>

text \<open>
  The detector owns the executor and two counters. Detector and executor are constructed
  with the same configuration object, which the detector reads here through the executor.
  The scanner cache of the dashboard is an observer and is left out.
\<close>

record ArbitrageDetector =
  tradeExecutor :: TradeExecutor
  opportunitiesFound :: nat
  totalComparisons :: nat

text \<open>A method of the executor, awaited by a method of the detector.\<close>

primrec liftStep :: "TradeExecutor step \<Rightarrow> ArbitrageDetector \<Rightarrow> ArbitrageDetector step" where
  "liftStep (Finished e) = (\<lambda>d. Finished (d\<lparr>tradeExecutor := e\<rparr>))"
| "liftStep (Suspended e req k) =
     (\<lambda>d. Suspended (d\<lparr>tradeExecutor := e\<rparr>) req
            (\<lambda>t r d'. liftStep (k t r (tradeExecutor d')) d'))"

text \<open>
  The first statement of \<open>checkArbitrage\<close>: the buy and the sell side when one of the two
  asks is strictly below the other bid, and \<open>return\<close> (here \<open>None\<close>) otherwise.
\<close>

record Crossing =
  cr_buyExchange :: ExchangeName
  cr_sellExchange :: ExchangeName
  cr_buyPrice :: real
  cr_sellPrice :: real
  cr_buyQtyAvailable :: "real option"
  cr_sellQtyAvailable :: "real option"

definition direction :: "TickerPrice \<Rightarrow> TickerPrice \<Rightarrow> Crossing option" where
  "direction price1 price2 =
    (if tk_ask price1 < tk_bid price2 then
       Some \<lparr> cr_buyExchange = tk_exchange price1, cr_sellExchange = tk_exchange price2,
              cr_buyPrice = tk_ask price1, cr_sellPrice = tk_bid price2,
              cr_buyQtyAvailable = tk_askQty price1, cr_sellQtyAvailable = tk_bidQty price2 \<rparr>
     else if tk_ask price2 < tk_bid price1 then
       Some \<lparr> cr_buyExchange = tk_exchange price2, cr_sellExchange = tk_exchange price1,
              cr_buyPrice = tk_ask price2, cr_sellPrice = tk_bid price1,
              cr_buyQtyAvailable = tk_askQty price2, cr_sellQtyAvailable = tk_bidQty price1 \<rparr>
     else None)"

definition spreadPercentOf :: "Crossing \<Rightarrow> real" where
  "spreadPercentOf c = ((cr_sellPrice c - cr_buyPrice c) / cr_buyPrice c) * 100"

definition takerFee :: "Config \<Rightarrow> ExchangeName \<Rightarrow> real" where
  "takerFee cfg exchange = (case exchange of Binance \<Rightarrow> fees_binance_taker cfg
                                            | Mexc \<Rightarrow> fees_mexc_taker cfg)"

text \<open>The \<open>ArbitrageOpportunity\<close> that \<open>checkArbitrage\<close> builds behind the spread gate.\<close>

definition makeOpportunity :: "Config \<Rightarrow> string \<Rightarrow> Crossing \<Rightarrow> real \<Rightarrow> ArbitrageOpportunity" where
  "makeOpportunity cfg symbol c now =
    (let buyFee = takerFee cfg (cr_buyExchange c) / 100;
         sellFee = takerFee cfg (cr_sellExchange c) / 100;
         slippage = slippage_percent cfg / 100;
         buyPriceWithFee = cr_buyPrice c * (1 + buyFee + slippage);
         sellPriceWithFee = cr_sellPrice c * (1 - sellFee - slippage);
         profitPercent = ((sellPriceWithFee - buyPriceWithFee) / buyPriceWithFee) * 100
     in \<lparr> op_symbol = symbol,
          op_buyExchange = cr_buyExchange c, op_sellExchange = cr_sellExchange c,
          op_buyPrice = cr_buyPrice c, op_sellPrice = cr_sellPrice c,
          op_buyQtyAvailable = cr_buyQtyAvailable c,
          op_sellQtyAvailable = cr_sellQtyAvailable c,
          op_spreadPercent = spreadPercentOf c, op_profitPercent = profitPercent,
          op_timestamp = now \<rparr>)"

text \<open>
  \<open>handleNewOpportunity\<close>, the opportunity gate. It touches the executor only. The
  detector does not await \<open>openPositionPair\<close>: the gate returns when the open finishes or
  suspends, and a suspended open goes on as a task of its own.
\<close>

definition handleNewOpportunity ::
  "string \<Rightarrow> string \<Rightarrow> string \<Rightarrow> ArbitrageOpportunity \<Rightarrow> real \<Rightarrow>
   TradeExecutor \<Rightarrow> TradeExecutor step" where
  "handleNewOpportunity pairId longId shortId opportunity now ex =
    (if list_ex (\<lambda>entry. pair_symbol (snd entry) = op_symbol opportunity) (openPositions ex)
       then Finished ex
     else if canOpenNewPosition ex
       then openPositionPair pairId longId shortId opportunity now ex
     else Finished (recordSkippedOpportunity opportunity NO_FREE_SLOTS ex))"

definition checkArbitrage ::
  "string \<Rightarrow> string \<Rightarrow> string \<Rightarrow> TickerPrice \<Rightarrow> TickerPrice \<Rightarrow> string \<Rightarrow> real \<Rightarrow>
   ArbitrageDetector \<Rightarrow> ArbitrageDetector step" where
  "checkArbitrage pairId longId shortId price1 price2 symbol now d =
    (let d1 = d\<lparr>totalComparisons := totalComparisons d + 1\<rparr>
     in case direction price1 price2 of
          None \<Rightarrow> Finished d1
        | Some c \<Rightarrow>
            bindStep
              (liftStep
                 (updatePositionSpread symbol (cr_buyPrice c) (cr_sellPrice c) now (tradeExecutor d1))
                 d1)
              now
              (\<lambda>t d2.
                 if spreadPercentOf c < arbitrage_minSpreadPercent (config (tradeExecutor d2))
                 then Finished d2
                 else
                   (let opportunity = makeOpportunity (config (tradeExecutor d2)) symbol c t;
                        d3 = d2\<lparr>opportunitiesFound := opportunitiesFound d2 + 1\<rparr>
                    in if trading_enabled (config (tradeExecutor d3))
                       then liftStep
                              (handleNewOpportunity pairId longId shortId opportunity t
                                 (tradeExecutor d3))
                              d3
                       else Finished d3)))"

section \<open>The event loop\<close>

text \<open>
  Several methods in flight on one object. A system is the state of the object and the
  suspended methods, each with the request it waits for. An event is a callback that
  invokes a method (a price tick, a timer) or the answer to the request of the suspended
  method at a position of the list. Each event runs its method up to the next suspension.
\<close>

record 's system =
  sys_state :: 's
  sys_tasks :: "(request \<times> (real \<Rightarrow> response \<Rightarrow> 's \<Rightarrow> 's step)) list"

datatype 's event = Invoke "'s \<Rightarrow> 's step" | Deliver nat real response

fun dispatch :: "'s event \<Rightarrow> 's system \<Rightarrow> 's system" where
  "dispatch (Invoke m) sys =
     (case m (sys_state sys) of
        Finished s \<Rightarrow> sys\<lparr>sys_state := s\<rparr>
      | Suspended s req k \<Rightarrow> \<lparr> sys_state = s, sys_tasks = sys_tasks sys @ [(req, k)] \<rparr>)"
| "dispatch (Deliver i t r) sys =
     (if i < length (sys_tasks sys) then
        (case snd (sys_tasks sys ! i) t r (sys_state sys) of
           Finished s \<Rightarrow>
             \<lparr> sys_state = s, sys_tasks = take i (sys_tasks sys) @ drop (Suc i) (sys_tasks sys) \<rparr>
         | Suspended s req k \<Rightarrow>
             \<lparr> sys_state = s, sys_tasks = (sys_tasks sys)[i := (req, k)] \<rparr>)
      else sys)"

definition runEvents :: "'s event list \<Rightarrow> 's system \<Rightarrow> 's system" where
  "runEvents events sys = foldl (\<lambda>s e. dispatch e s) sys events"

text \<open>The requests that the suspended methods of a system wait for.\<close>

definition pending :: "'s system \<Rightarrow> request list" where
  "pending sys = map fst (sys_tasks sys)"

section \<open>Statements about runs\<close>

text \<open>The state in which a run has finished, if it has.\<close>

primrec finalState :: "'s step \<Rightarrow> 's option" where
  "finalState (Finished s) = Some s"
| "finalState (Suspended s req k) = None"

text \<open>
  \<open>post m tr Q\<close>: wherever a run of \<open>m\<close> that starts with the trace \<open>tr\<close> stops, because
  the method has finished or because the answers have run out, \<open>Q\<close> holds of the final
  state (if finished) and of the trace.
\<close>

primrec post :: "'s step \<Rightarrow> trace \<Rightarrow> ('s option \<Rightarrow> trace \<Rightarrow> bool) \<Rightarrow> bool" where
  "post (Finished s) = (\<lambda>tr Q. Q (Some s) tr)"
| "post (Suspended s req k) =
     (\<lambda>tr Q. Q None tr \<and> (\<forall>t r. post (k t r s) (tr @ [(req, t, r)]) Q))"

text \<open>The orders that open the long and the short leg, on either venue.\<close>

fun isOpenLongOrder :: "request \<Rightarrow> bool" where
  "isOpenLongOrder (BinanceCreateMarketOrder symbol side quantity reduceOnly) =
     (side = BUY \<and> \<not> reduceOnly)"
| "isOpenLongOrder (MexcCreateMarketOrder symbol orderType vol) = (orderType = 1)"
| "isOpenLongOrder other = False"

fun isOpenShortOrder :: "request \<Rightarrow> bool" where
  "isOpenShortOrder (BinanceCreateMarketOrder symbol side quantity reduceOnly) =
     (side = SELL \<and> \<not> reduceOnly)"
| "isOpenShortOrder (MexcCreateMarketOrder symbol orderType vol) = (orderType = 3)"
| "isOpenShortOrder other = False"

text \<open>An entry of a trace: the order for the long leg, rejected by the venue.\<close>

definition longOrderRejected :: "request \<times> real \<times> response \<Rightarrow> bool" where
  "longOrderRejected x =
    (isOpenLongOrder (fst x)
     \<and> (case snd (snd x) of Rejected msg \<Rightarrow> True | Resolved v \<Rightarrow> False))"

text \<open>
  What a run of \<open>openPositionPair\<close> from the state \<open>st\<close> has done if its trace holds a
  rejected order for the long leg: it has finished, the rejected order is the last request
  it made, no order for the short leg was made, the last recorded error is that of the long
  leg, the skip was reported as \<open>ORDER_CREATION_FAILED\<close>, and ledger, balance and guard
  are those of \<open>st\<close>.
\<close>

definition abortedAtLongLeg ::
  "TradeExecutor \<Rightarrow> ArbitrageOpportunity \<Rightarrow> TradeExecutor option \<Rightarrow> trace \<Rightarrow> bool" where
  "abortedAtLongLeg st opp fin tr =
    (\<forall>x \<in> set tr. longOrderRejected x \<longrightarrow>
       (\<exists>st'. fin = Some st' \<and> last tr = x
          \<and> \<not> list_ex (\<lambda>y. isOpenShortOrder (fst y)) tr
          \<and> tradingErrors st' \<noteq> []
          \<and> err_operation (last (tradingErrors st')) = OPEN_LONG
          \<and> err_exchange (last (tradingErrors st')) = op_buyExchange opp
          \<and> err_symbol (last (tradingErrors st')) = op_symbol opp
          \<and> err_timestamp (last (tradingErrors st')) = fst (snd x)
          \<and> Rejected (err_errorMessage (last (tradingErrors st'))) = snd (snd x)
          \<and> skipCalls st' = skipCalls st @ [(opp, ORDER_CREATION_FAILED)]
          \<and> openPositions st' = openPositions st
          \<and> closedPositions st' = closedPositions st
          \<and> currentBalance st' = currentBalance st
          \<and> pendingOrders st' = pendingOrders st))"

text \<open>The ledger, the balance and the skip log of \<open>s\<close> are those of \<open>st\<close>.\<close>

definition sameLedger :: "TradeExecutor \<Rightarrow> TradeExecutor \<Rightarrow> bool" where
  "sameLedger st s =
    (openPositions s = openPositions st \<and> closedPositions s = closedPositions st
     \<and> currentBalance s = currentBalance st \<and> skipCalls s = skipCalls st
     \<and> config s = config st)"

text \<open>
  \<open>finishesWithin m n Q\<close>: every run of \<open>m\<close> without interference finishes after at
  most \<open>n\<close> answers, whatever the answers are, in a state of which \<open>Q\<close> holds.
\<close>

primrec finishesWithin :: "'s step \<Rightarrow> nat \<Rightarrow> ('s \<Rightarrow> bool) \<Rightarrow> bool" where
  "finishesWithin (Finished s) = (\<lambda>n Q. Q s)"
| "finishesWithin (Suspended s req k) =
     (\<lambda>n Q. case n of 0 \<Rightarrow> False | Suc m \<Rightarrow> \<forall>t r. finishesWithin (k t r s) m Q)"

text \<open>The remote calls of one close: none in simulated mode, at most five in live mode.\<close>

definition callsPerClose :: "Config \<Rightarrow> nat" where
  "callsPerClose cfg = (if trading_testMode cfg then 0 else 5)"

text \<open>The venue clients, the configuration and the price getter of \<open>s\<close> are those of \<open>st\<close>.\<close>

definition sameSetup :: "TradeExecutor \<Rightarrow> TradeExecutor \<Rightarrow> bool" where
  "sameSetup st s =
    (config s = config st \<and> getPricesFn s = getPricesFn st
     \<and> binance s = binance st \<and> mexc s = mexc st)"

text \<open>What the price getter of the executor returns for the symbol of a pair, if it is set.\<close>

definition pricesFor :: "TradeExecutor \<Rightarrow> PositionPair \<Rightarrow> Prices option" where
  "pricesFor st pair =
    (case getPricesFn st of None \<Rightarrow> None | Some fn \<Rightarrow> fn (pair_symbol pair))"

text \<open>The deadline of the pair has been reached and current prices are at hand.\<close>

definition timeoutDue :: "real \<Rightarrow> TradeExecutor \<Rightarrow> PositionPair \<Rightarrow> bool" where
  "timeoutDue now st pair = (reached now (pair_timeoutAt pair) \<and> pricesFor st pair \<noteq> None)"

text \<open>The pair as the sweep closes it at time \<open>t\<close>, at the prices of the getter.\<close>

definition timeoutClosed :: "TradeExecutor \<Rightarrow> PositionPair \<Rightarrow> real \<Rightarrow> PositionPair" where
  "timeoutClosed st pair t =
    closedPair (config st) pair TIMEOUT
      (pr_buyPrice (the (pricesFor st pair))) (pr_sellPrice (the (pricesFor st pair))) t"








section \<open>Concrete inputs\<close>

text \<open>The inputs at which the statements below are evaluated.\<close>

definition exampleConfig :: Config where
  "exampleConfig =
    \<lparr> trading_enabled = True, trading_testMode = True,
      trading_testBalanceUSD = 10000, trading_positionSizeUSD = 1000,
      trading_maxOpenPositions = 3, trading_positionTimeoutSeconds = 60,
      trading_leverage = 1, trading_closeOnSpreadConvergence = True,
      trading_priceConvergencePercent = 0.05, arbitrage_minSpreadPercent = 0.3,
      fees_binance_taker = 0.04, fees_mexc_taker = 0.02, slippage_percent = 0.1 \<rparr>"

definition zeroFeeConfig :: Config where
  "zeroFeeConfig = exampleConfig\<lparr>fees_binance_taker := 0, fees_mexc_taker := 0\<rparr>"

definition exampleCrossing :: Crossing where
  "exampleCrossing =
    \<lparr> cr_buyExchange = Binance, cr_sellExchange = Mexc, cr_buyPrice = 100, cr_sellPrice = 101,
      cr_buyQtyAvailable = Some 20, cr_sellQtyAvailable = None \<rparr>"

text \<open>Buy at 100 with a visible depth of 2000 USD, sell at 101 with no depth in the feed.\<close>

definition exampleOpportunity :: ArbitrageOpportunity where
  "exampleOpportunity = makeOpportunity exampleConfig ''BTCUSDT'' exampleCrossing 1000"


definition otherOpportunity :: ArbitrageOpportunity where
  "otherOpportunity = exampleOpportunity\<lparr>op_symbol := ''ETHUSDT''\<rparr>"

text \<open>A simulated executor without fees, fresh and after it has opened a pair on ETHUSDT.\<close>

definition zeroFeeExecutor :: TradeExecutor where
  "zeroFeeExecutor = constructor zeroFeeConfig False False"

definition onePairExecutor :: TradeExecutor where
  "onePairExecutor =
    stateOf (openPositionPair ''pair-1'' ''long-1'' ''short-1'' otherOpportunity 1000
               zeroFeeExecutor)"

text \<open>
  A live executor with both venue clients and a leg of 100 USD, and the answers of a run in
  which both leverage calls succeed and the order for the long leg is rejected.
\<close>

definition liveConfig :: Config where
  "liveConfig = exampleConfig\<lparr>trading_testMode := False, trading_positionSizeUSD := 100\<rparr>"

definition liveExecutor :: TradeExecutor where
  "liveExecutor = constructor liveConfig True True"

definition longRejectedAnswers :: "(real \<times> response) list" where
  "longRejectedAnswers =
    [(1001, Resolved 0), (1002, Resolved 0), (1003, Rejected ''insufficient margin'')]"

text \<open>
  The pair that \<open>onePairExecutor\<close> holds (opened at 1000 with a timeout of 60 s, so due from
  61000 on), a price getter that knows ETHUSDT, and one that knows nothing.
\<close>

definition ethPair :: PositionPair where
  "ethPair = makePositionPair zeroFeeConfig ''pair-1'' ''long-1'' ''short-1'' 1000 otherOpportunity"

definition ethPrices :: "string \<Rightarrow> Prices option" where
  "ethPrices symbol =
    (if symbol = ''ETHUSDT'' then Some \<lparr> pr_buyPrice = 100, pr_sellPrice = 101 \<rparr> else None)"

definition pricedExecutor :: TradeExecutor where
  "pricedExecutor = setPriceGetter ethPrices onePairExecutor"

definition unpricedExecutor :: TradeExecutor where
  "unpricedExecutor = setPriceGetter (\<lambda>symbol. None) onePairExecutor"

definition zeroTimeoutConfig :: Config where
  "zeroTimeoutConfig = exampleConfig\<lparr>trading_positionTimeoutSeconds := 0\<rparr>"






text \<open>
  A detector over the executor that holds the pair on ETHUSDT, and ticks for ETHUSDT after
  the prices have come together: no ask is below the bid of the other venue. In the last
  tick the bid of MEXC is 100.6, a crossing with a spread of about 0.1 percent.
\<close>

definition onePairDetector :: ArbitrageDetector where
  "onePairDetector =
    \<lparr> tradeExecutor = onePairExecutor, opportunitiesFound = 1, totalComparisons = 1 \<rparr>"

definition ethBinanceTick :: TickerPrice where
  "ethBinanceTick =
    \<lparr> tk_symbol = ''ETHUSDT'', tk_price = 100.45, tk_bid = 100.4, tk_ask = 100.5,
      tk_bidQty = Some 20, tk_askQty = Some 20, tk_timestamp = 2000, tk_exchange = Binance \<rparr>"

definition ethMexcTick :: TickerPrice where
  "ethMexcTick =
    \<lparr> tk_symbol = ''ETH_USDT'', tk_price = 100.5, tk_bid = 100.45, tk_ask = 100.55,
      tk_bidQty = None, tk_askQty = None, tk_timestamp = 2000, tk_exchange = Mexc \<rparr>"

definition ethMexcCrossTick :: TickerPrice where
  "ethMexcCrossTick = ethMexcTick\<lparr>tk_bid := 100.6, tk_ask := 100.7\<rparr>"


definition liveOpenAnswers :: "(real \<times> response) list" where
  "liveOpenAnswers =
    [(1001, Resolved 0), (1002, Resolved 0), (1003, Resolved 1), (1504, Resolved 0),
     (1505, Resolved 1), (1506, Resolved 5000), (1507, Resolved 5000)]"

definition livePairExecutor :: TradeExecutor where
  "livePairExecutor =
    stateOf (fst (run liveOpenAnswers
      (openPositionPair ''pair-1'' ''long-1'' ''short-1'' otherOpportunity 1000 liveExecutor) []))"

definition livePair :: PositionPair where
  "livePair = makePositionPair liveConfig ''pair-1'' ''long-1'' ''short-1'' 1000 otherOpportunity"



definition livePairSystem :: "TradeExecutor system" where
  "livePairSystem = \<lparr> sys_state = livePairExecutor, sys_tasks = [] \<rparr>"


text \<open>
  The event loop over the same executor, whose last order was made at 1505: two
  opportunities for BTCUSDT are handled at 2000 and at 2100, inside the interval of 2000 ms.
  Both opens wait, both waits end at 3505, and every call of the two opens succeeds.
\<close>

definition raceInvocations :: "TradeExecutor event list" where
  "raceInvocations =
    [Invoke (handleNewOpportunity ''pair-2'' ''long-2'' ''short-2'' exampleOpportunity 2000),
     Invoke (handleNewOpportunity ''pair-3'' ''long-3'' ''short-3'' exampleOpportunity 2100),
     Deliver 0 3505 (Resolved 0), Deliver 1 3505 (Resolved 0)]"

definition raceAnswers :: "TradeExecutor event list" where
  "raceAnswers =
    [Deliver 0 3506 (Resolved 0), Deliver 0 3507 (Resolved 0), Deliver 0 3508 (Resolved 1),
     Deliver 0 4009 (Resolved 0), Deliver 0 4010 (Resolved 1), Deliver 0 4011 (Resolved 4800),
     Deliver 0 4012 (Resolved 4800),
     Deliver 0 4013 (Resolved 0), Deliver 0 4014 (Resolved 0), Deliver 0 4015 (Resolved 1),
     Deliver 0 4516 (Resolved 0), Deliver 0 4517 (Resolved 1), Deliver 0 4518 (Resolved 4600),
     Deliver 0 4519 (Resolved 4600)]"

definition raceFirstPair :: PositionPair where
  "raceFirstPair =
    makePositionPair liveConfig ''pair-2'' ''long-2'' ''short-2'' 2000 exampleOpportunity"

definition raceSecondPair :: PositionPair where
  "raceSecondPair =
    makePositionPair liveConfig ''pair-3'' ''long-3'' ''short-3'' 2100 exampleOpportunity"

section \<open>Basic facts\<close>

lemma run_Finished: "run as (Finished s) tr = (Finished s, tr)"
  by (cases as) simp_all




lemma makePositionPair_sel:
  "pair_id (makePositionPair cfg pairId longId shortId now opp) = pairId"
  "pair_symbol (makePositionPair cfg pairId longId shortId now opp) = op_symbol opp"
  "pair_status (makePositionPair cfg pairId longId shortId now opp) = OPEN"
  "pair_openSpread (makePositionPair cfg pairId longId shortId now opp) = op_spreadPercent opp"
  "pair_timeoutAt (makePositionPair cfg pairId longId shortId now opp) =
     (if trading_positionTimeoutSeconds cfg = 0 then Infinity
      else At (now + trading_positionTimeoutSeconds cfg * 1000))"
  by (simp_all add: makePositionPair_def)


lemma post_run:
  "post m tr0 Q \<Longrightarrow> run answers m tr0 = (final, tr) \<Longrightarrow> Q (finalState final) tr"
proof (induction answers arbitrary: m tr0)
  case Nil
  then show ?case by (cases m) auto
next
  case (Cons a as)
  then show ?case by (cases m; cases a) auto
qed

lemma post_mono:
  "post m tr Q \<Longrightarrow> (\<And>f t. Q f t \<Longrightarrow> Q' f t) \<Longrightarrow> post m tr Q'"
proof (induction m arbitrary: tr)
  case (Finished s)
  then show ?case by simp
next
  case (Suspended s req k)
  have "post (k t r s) (tr @ [(req, t, r)]) Q'" for t r
    using Suspended.prems
    by (intro Suspended.IH[of "k t" "k t r" "k t r s"]) (auto intro: rangeI)
  with Suspended.prems show ?case by simp
qed

lemma finishesWithin_mono:
  "finishesWithin m n Q \<Longrightarrow> n \<le> n' \<Longrightarrow> (\<And>s. Q s \<Longrightarrow> Q' s) \<Longrightarrow> finishesWithin m n' Q'"
proof (induction m arbitrary: n n')
  case (Finished s)
  then show ?case by simp
next
  case (Suspended s req k)
  from Suspended.prems obtain j where n: "n = Suc j" by (cases n) auto
  with Suspended.prems obtain j' where n': "n' = Suc j'" "j \<le> j'" by (cases n') auto
  have "finishesWithin (k t r s) j' Q'" for t r
    using Suspended.prems n n'
    by (intro Suspended.IH[of "k t" "k t r" "k t r s" j j']) (auto intro: rangeI)
  then show ?case using n' by simp
qed

lemma finishesWithin_run:
  "finishesWithin m n Q \<Longrightarrow> n \<le> length answers \<Longrightarrow>
   \<exists>s tr'. run answers m tr = (Finished s, tr') \<and> Q s"
proof (induction answers arbitrary: m n tr)
  case Nil
  then show ?case by (cases m) auto
next
  case (Cons a as)
  show ?case
  proof (cases m)
    case (Finished s)
    with Cons.prems show ?thesis by simp
  next
    case (Suspended s req k)
    with Cons.prems obtain j where n: "n = Suc j" by (cases n) auto
    have "finishesWithin (k (fst a) (snd a) s) j Q"
      using Cons.prems Suspended n by simp
    moreover have "j \<le> length as" using Cons.prems n by simp
    ultimately show ?thesis using Cons.IH Suspended by simp
  qed
qed

lemma finishesWithin_bind:
  "finishesWithin m n (\<lambda>s. \<forall>t. finishesWithin (rest t s) n' Q)
   \<Longrightarrow> finishesWithin (bindStep m t0 rest) (n + n') Q"
proof (induction m arbitrary: n t0)
  case (Finished s)
  then show ?case by (auto intro: finishesWithin_mono)
next
  case (Suspended s req k)
  from Suspended.prems obtain j where n: "n = Suc j" by (cases n) auto
  have "finishesWithin (bindStep (k t r s) t rest) (j + n') Q" for t r
    using Suspended.prems n
    by (intro Suspended.IH[of "k t" "k t r" "k t r s" j t]) (auto intro: rangeI)
  then show ?case using n by simp
qed


lemma map_of_split:
  "k \<notin> fst ` set kept \<Longrightarrow> map_of (kept @ (k, p) # rest) k = Some p"
  by (induction kept) auto

lemma mapSet_split:
  "k \<notin> fst ` set kept \<Longrightarrow> mapSet k v (kept @ (k, p) # rest) = kept @ (k, v) # rest"
  by (induction kept) auto

lemma mapDelete_split:
  "k \<notin> fst ` set kept \<Longrightarrow> k \<notin> fst ` set rest \<Longrightarrow>
   mapDelete k (kept @ (k, p) # rest) = kept @ rest"
  by (induction kept) (auto simp: mapDelete_def filter_id_conv)

lemma sameSetup_recordTradingError:
  "sameSetup s (recordTradingError e s0) = sameSetup s s0"
  "openPositions (recordTradingError e s0) = openPositions s0"
  "closedPositions (recordTradingError e s0) = closedPositions s0"
  by (simp_all add: sameSetup_def recordTradingError_def)

lemma closeCommit_finishes:
  assumes "openPositions s0 = openPositions s" and "closedPositions s0 = closedPositions s"
    and "sameSetup s s0"
  shows "finishesWithin (closeCommit k c pnl t s0) 2
     (\<lambda>s'. openPositions s' = mapDelete k (openPositions s)
        \<and> closedPositions s' = closedPositions s @ [c]
        \<and> sameSetup s s')"
  using assms
  by (simp add: closeCommit_def Let_def updateRealBalance_def fetchMexcBalance_def
        updateStats_def setBalanceFromVenues_def recordTradingError_def sameSetup_def
        split: response.split)

lemma closeShortLeg_finishes:
  assumes "openPositions s0 = openPositions s" and "closedPositions s0 = closedPositions s"
    and "sameSetup s s0"
  shows "finishesWithin (closeShortLeg k c pnl t s0) 3
     (\<lambda>s'. openPositions s' = mapDelete k (openPositions s)
        \<and> closedPositions s' = closedPositions s @ [c]
        \<and> sameSetup s s')"
proof -
  have two: "finishesWithin (closeCommit k c pnl t' s1) 2
     (\<lambda>s'. openPositions s' = mapDelete k (openPositions s)
        \<and> closedPositions s' = closedPositions s @ [c] \<and> sameSetup s s')"
    if "openPositions s1 = openPositions s" "closedPositions s1 = closedPositions s"
       "sameSetup s s1" for t' s1
    using that by (rule closeCommit_finishes)
  have three: "finishesWithin (closeCommit k c pnl t' s1) 3
     (\<lambda>s'. openPositions s' = mapDelete k (openPositions s)
        \<and> closedPositions s' = closedPositions s @ [c] \<and> sameSetup s s')"
    if "openPositions s1 = openPositions s" "closedPositions s1 = closedPositions s"
       "sameSetup s s1" for t' s1
    by (rule finishesWithin_mono[OF two[OF that]]) simp_all
  show ?thesis
    unfolding closeShortLeg_def Let_def
    using assms
    by (auto simp: two three sameSetup_recordTradingError split: response.split)
qed

lemma closeInterLegDelay_finishes:
  assumes "openPositions s0 = openPositions s" and "closedPositions s0 = closedPositions s"
    and "sameSetup s s0"
  shows "finishesWithin (closeInterLegDelay k c pnl s0) 4
     (\<lambda>s'. openPositions s' = mapDelete k (openPositions s)
        \<and> closedPositions s' = closedPositions s @ [c]
        \<and> sameSetup s s')"
proof -
  show ?thesis
    unfolding closeInterLegDelay_def
    using assms by (simp add: closeShortLeg_finishes)
qed

lemma closeLongLeg_finishes:
  "finishesWithin (closeLongLeg k c pnl s) 5
     (\<lambda>s'. openPositions s' = mapDelete k (openPositions s)
        \<and> closedPositions s' = closedPositions s @ [c]
        \<and> sameSetup s s')"
proof -
  have four: "finishesWithin (closeInterLegDelay k c pnl s1) 4
     (\<lambda>s'. openPositions s' = mapDelete k (openPositions s)
        \<and> closedPositions s' = closedPositions s @ [c] \<and> sameSetup s s')"
    if "openPositions s1 = openPositions s" "closedPositions s1 = closedPositions s"
       "sameSetup s s1" for s1
    using that by (rule closeInterLegDelay_finishes)
  have five: "finishesWithin (closeInterLegDelay k c pnl s1) 5
     (\<lambda>s'. openPositions s' = mapDelete k (openPositions s)
        \<and> closedPositions s' = closedPositions s @ [c] \<and> sameSetup s s')"
    if "openPositions s1 = openPositions s" "closedPositions s1 = closedPositions s"
       "sameSetup s s1" for s1
    by (rule finishesWithin_mono[OF four[OF that]]) simp_all
  have refl: "sameSetup s s" by (simp add: sameSetup_def)
  show ?thesis
    unfolding closeLongLeg_def Let_def
    using refl
    by (auto simp: four five sameSetup_recordTradingError split: response.split)
qed

lemma closePositionPair_finishes:
  assumes op: "openPositions s = kept @ (k, p) # rest"
    and nk: "k \<notin> fst ` set kept" and nr: "k \<notin> fst ` set rest"
  shows "finishesWithin (closePositionPair k reason buy sell t s) (callsPerClose (config s))
     (\<lambda>s'. openPositions s' = kept @ rest
        \<and> closedPositions s' = closedPositions s @ [closedPair (config s) p reason buy sell t]
        \<and> sameSetup s s')"
proof -
  let ?c = "closedPair (config s) p reason buy sell t"
  let ?s1 = "s\<lparr>openPositions := mapSet k ?c (openPositions s)\<rparr>"
  have m: "map_of (openPositions s) k = Some p"
    unfolding op by (rule map_of_split[OF nk])
  have ms: "mapSet k ?c (openPositions s) = kept @ (k, ?c) # rest"
    unfolding op by (rule mapSet_split[OF nk])
  have md: "mapDelete k (kept @ (k, ?c) # rest) = kept @ rest"
    by (rule mapDelete_split[OF nk nr])
  show ?thesis
  proof (cases "trading_testMode (config s)")
    case True
    then show ?thesis
      by (simp add: closePositionPair_def m ms md Let_def closeCommit_def callsPerClose_def
            updateStats_def sameSetup_def)
  next
    case False
    have "finishesWithin (closeLongLeg k ?c (totalPnlUSDOf (config s) p buy sell) ?s1) 5
       (\<lambda>s'. openPositions s' = mapDelete k (openPositions ?s1)
          \<and> closedPositions s' = closedPositions ?s1 @ [?c]
          \<and> sameSetup ?s1 s')"
      by (rule closeLongLeg_finishes)
    then show ?thesis
      using False
      by (simp add: closePositionPair_def m ms md Let_def callsPerClose_def sameSetup_def)
  qed
qed

lemma forEachKey_ledger:
  fixes g :: "string \<times> PositionPair \<Rightarrow> (string \<times> PositionPair) list"
    and R :: "string \<times> PositionPair \<Rightarrow> PositionPair list \<Rightarrow> bool"
  assumes body: "\<And>k p t s kept rest.
      sameSetup st s \<Longrightarrow> openPositions s = kept @ (k, p) # rest \<Longrightarrow>
      k \<notin> fst ` set kept \<Longrightarrow> k \<notin> fst ` set rest \<Longrightarrow>
      finishesWithin (body k t s) b
        (\<lambda>s'. sameSetup st s' \<and> openPositions s' = kept @ g (k, p) @ rest
           \<and> (\<exists>cs. closedPositions s' = closedPositions s @ cs \<and> R (k, p) cs))"
    and gk: "\<And>e. fst ` set (g e) \<subseteq> {fst e}" and gd: "\<And>e. distinct (map fst (g e))"
    and "sameSetup st s" and "openPositions s = kept @ qs"
    and "distinct (map fst (kept @ qs))"
  shows "finishesWithin (forEachKey body (map fst qs) t s) (b * length qs)
     (\<lambda>s'. sameSetup st s' \<and> openPositions s' = kept @ concat (map g qs)
        \<and> (\<exists>css. closedPositions s' = closedPositions s @ concat css \<and> list_all2 R qs css))"
  using assms(4-)
proof (induction qs arbitrary: kept s t)
  case Nil
  then show ?case by simp
next
  case (Cons e rest)
  obtain k p where e: "e = (k, p)" by (cases e)
  have nk: "k \<notin> fst ` set kept" and nr: "k \<notin> fst ` set rest"
    using Cons.prems(3) e by auto
  let ?Q = "\<lambda>s'. sameSetup st s' \<and> openPositions s' = kept @ concat (map g (e # rest))
        \<and> (\<exists>css. closedPositions s' = closedPositions s @ concat css
              \<and> list_all2 R (e # rest) css)"
  have step: "finishesWithin (body k t s) b
      (\<lambda>s1. \<forall>t'. finishesWithin (forEachKey body (map fst rest) t' s1) (b * length rest) ?Q)"
  proof (rule finishesWithin_mono[OF body[OF Cons.prems(1) _ nk nr]])
    show "openPositions s = kept @ (k, p) # rest" using Cons.prems(2) e by simp
    show "b \<le> b" by simp
    fix s1
    assume a: "sameSetup st s1 \<and> openPositions s1 = kept @ g (k, p) @ rest
           \<and> (\<exists>cs. closedPositions s1 = closedPositions s @ cs \<and> R (k, p) cs)"
    then obtain cs where cs: "closedPositions s1 = closedPositions s @ cs" "R (k, p) cs"
      by blast
    have d: "distinct (map fst ((kept @ g (k, p)) @ rest))"
      using Cons.prems(3) e gk[of "(k, p)"] gd[of "(k, p)"] by auto
    show "\<forall>t'. finishesWithin (forEachKey body (map fst rest) t' s1) (b * length rest) ?Q"
    proof
      fix t'
      have "finishesWithin (forEachKey body (map fst rest) t' s1) (b * length rest)
         (\<lambda>s'. sameSetup st s' \<and> openPositions s' = (kept @ g (k, p)) @ concat (map g rest)
            \<and> (\<exists>css. closedPositions s' = closedPositions s1 @ concat css
                  \<and> list_all2 R rest css))"
        using a d by (intro Cons.IH) simp_all
      then show "finishesWithin (forEachKey body (map fst rest) t' s1) (b * length rest) ?Q"
      proof (rule finishesWithin_mono)
        fix s'
        assume b: "sameSetup st s' \<and> openPositions s' = (kept @ g (k, p)) @ concat (map g rest)
            \<and> (\<exists>css. closedPositions s' = closedPositions s1 @ concat css
                  \<and> list_all2 R rest css)"
        then obtain css where css: "closedPositions s' = closedPositions s1 @ concat css"
          "list_all2 R rest css" by blast
        have c: "closedPositions s' = closedPositions s @ concat (cs # css)"
          using cs css by simp
        have l: "list_all2 R (e # rest) (cs # css)" using cs css e by simp
        have o: "openPositions s' = kept @ concat (map g (e # rest))"
          using b e by simp
        from c l have "\<exists>css'. closedPositions s' = closedPositions s @ concat css'
              \<and> list_all2 R (e # rest) css'" by blast
        with b o show "?Q s'" by blast
      qed simp
    qed
  qed
  have "finishesWithin (bindStep (body k t s) t (forEachKey body (map fst rest)))
          (b + b * length rest) ?Q"
    by (rule finishesWithin_bind[OF step])
  then show ?case using e by simp
qed


section \<open>The execution price simulator: properties\<close>








section \<open>Balance accounting in simulated mode\<close>






lemma entryPrice_full_fill:
  "fullFill (calculateExecutionPrice cfg (trading_positionSizeUSD cfg) (op_buyPrice opp)
               (op_buyQtyAvailable opp))
   \<Longrightarrow> pos_entryPrice (pair_longPosition (makePositionPair cfg a b c now opp)) = op_buyPrice opp"
  "fullFill (calculateExecutionPrice cfg (trading_positionSizeUSD cfg) (op_sellPrice opp)
               (op_sellQtyAvailable opp))
   \<Longrightarrow> pos_entryPrice (pair_shortPosition (makePositionPair cfg a b c now opp)) = op_sellPrice opp"
  by (auto simp: makePositionPair_def makeLongPosition_def makeShortPosition_def
        calculateExecutionPrice_def Let_def split: if_splits)


lemma onePairExecutor_eval:
  "config onePairExecutor = zeroFeeConfig"
  "pendingOrders onePairExecutor = 0"
  "currentBalance onePairExecutor = 8000"
  "openPositions onePairExecutor =
     [(''pair-1'', makePositionPair zeroFeeConfig ''pair-1'' ''long-1'' ''short-1'' 1000
                     otherOpportunity)]"
  by (simp_all add: onePairExecutor_def zeroFeeExecutor_def openPositionPair_def
        openAfterWait_def openCommit_def constructor_def zeroFeeConfig_def exampleConfig_def
        Let_def makePositionPair_sel)

lemma exampleOpportunity_eval:
  "op_symbol exampleOpportunity = ''BTCUSDT''"
  "op_buyPrice exampleOpportunity = 100"
  "op_sellPrice exampleOpportunity = 101"
  "op_buyQtyAvailable exampleOpportunity = Some 20"
  "op_sellQtyAvailable exampleOpportunity = None"
  "op_buyExchange exampleOpportunity = Binance"
  "op_sellExchange exampleOpportunity = Mexc"
  "op_spreadPercent exampleOpportunity = 1"
  by (simp_all add: exampleOpportunity_def makeOpportunity_def exampleCrossing_def Let_def
        spreadPercentOf_def)




section \<open>A failed long leg aborts the open\<close>

lemma after_long_leg:
  assumes "\<not> list_ex longOrderRejected tr"
  shows "post (openInterLegDelay opp pp s) tr (\<lambda>fin tr'. \<not> list_ex longOrderRejected tr')"
  using assms
  by (simp add: openInterLegDelay_def openShortLeg_def openCommit_def updateRealBalance_def
        fetchMexcBalance_def Let_def longOrderRejected_def split: response.split)

lemma abortedAtLongLeg_vacuous:
  "\<not> list_ex longOrderRejected tr \<Longrightarrow> abortedAtLongLeg st opp fin tr"
  by (auto simp: abortedAtLongLeg_def list_ex_iff)

lemma no_long_no_rejected:
  "\<not> list_ex (\<lambda>y. isOpenLongOrder (fst y)) tr \<Longrightarrow> \<not> list_ex longOrderRejected tr"
  by (auto simp: list_ex_iff longOrderRejected_def)

lemma long_leg_segment:
  assumes fr: "sameLedger st s" and g: "pendingOrders s = pendingOrders st + 1"
    and nl: "\<not> list_ex (\<lambda>y. isOpenLongOrder (fst y)) tr"
    and ns: "\<not> list_ex (\<lambda>y. isOpenShortOrder (fst y)) tr"
    and ex: "pos_exchange (pair_longPosition pp) = op_buyExchange opp"
  shows "post (openLongLeg opp pp s) tr (abortedAtLongLeg st opp)"
proof -
  have vac: "abortedAtLongLeg st opp None tr"
    using nl by (intro abortedAtLongLeg_vacuous no_long_no_rejected)
  have ok: "post (openInterLegDelay opp pp s') (tr @ [(req, t, Resolved v)]) (abortedAtLongLeg st opp)"
    for s' req t v
  proof (rule post_mono[OF after_long_leg])
    show "\<not> list_ex longOrderRejected (tr @ [(req, t, Resolved v)])"
      using no_long_no_rejected[OF nl] by (simp add: longOrderRejected_def)
  qed (rule abortedAtLongLeg_vacuous)
  have none: "post (openInterLegDelay opp pp s) tr (abortedAtLongLeg st opp)"
    by (rule post_mono[OF after_long_leg[OF no_long_no_rejected[OF nl]]])
       (rule abortedAtLongLeg_vacuous)
  have rej: "abortedAtLongLeg st opp
      (Some (orderCreationFailed opp (recordTradingError
         \<lparr> err_timestamp = t, err_symbol = op_symbol opp, err_operation = OPEN_LONG,
           err_exchange = e, err_errorMessage = msg \<rparr> s)))
      (tr @ [(req, t, Rejected msg)])"
    if "isOpenLongOrder req" "\<not> isOpenShortOrder req" "e = op_buyExchange opp" for req t msg e
    using fr g nl ns that
    by (auto simp: abortedAtLongLeg_def sameLedger_def orderCreationFailed_def
          recordTradingError_def recordSkippedOpportunity_def Let_def list_ex_iff
          longOrderRejected_def)
  show ?thesis
    using vac ok none ex[symmetric]
    by (auto simp: openLongLeg_def Let_def rej split: response.split)
qed

lemma recordTradingError_frame:
  "sameLedger st (recordTradingError e s) = sameLedger st s"
  "pendingOrders (recordTradingError e s) = pendingOrders s"
  "mexc (recordTradingError e s) = mexc s"
  "binance (recordTradingError e s) = binance s"
  "config (recordTradingError e s) = config s"
  by (simp_all add: recordTradingError_def sameLedger_def)

lemma abortedAtLongLeg_no_long:
  "\<not> list_ex (\<lambda>y. isOpenLongOrder (fst y)) tr \<Longrightarrow> abortedAtLongLeg st opp fin tr"
  by (intro abortedAtLongLeg_vacuous no_long_no_rejected)

lemma mexc_leverage_segment:
  assumes fr: "sameLedger st s" and g: "pendingOrders s = pendingOrders st + 1"
    and nl: "\<not> list_ex (\<lambda>y. isOpenLongOrder (fst y)) tr"
    and ns: "\<not> list_ex (\<lambda>y. isOpenShortOrder (fst y)) tr"
    and ex: "pos_exchange (pair_longPosition pp) = op_buyExchange opp"
  shows "post (setMexcLeverage opp pp s) tr (abortedAtLongLeg st opp)"
  using assms
  by (auto simp: setMexcLeverage_def Let_def recordTradingError_frame
        intro!: long_leg_segment abortedAtLongLeg_no_long split: response.split)

lemma binance_leverage_segment:
  assumes fr: "sameLedger st s" and g: "pendingOrders s = pendingOrders st + 1"
    and nl: "\<not> list_ex (\<lambda>y. isOpenLongOrder (fst y)) tr"
    and ns: "\<not> list_ex (\<lambda>y. isOpenShortOrder (fst y)) tr"
    and ex: "pos_exchange (pair_longPosition pp) = op_buyExchange opp"
  shows "post (setBinanceLeverage opp pp s) tr (abortedAtLongLeg st opp)"
  using assms
  by (auto simp: setBinanceLeverage_def Let_def recordTradingError_frame
        intro!: mexc_leverage_segment abortedAtLongLeg_no_long split: response.split)

lemma openLive_segment:
  assumes fr: "sameLedger st s" and g: "pendingOrders s = pendingOrders st"
    and nl: "\<not> list_ex (\<lambda>y. isOpenLongOrder (fst y)) tr"
    and ns: "\<not> list_ex (\<lambda>y. isOpenShortOrder (fst y)) tr"
    and ex: "pos_exchange (pair_longPosition pp) = op_buyExchange opp"
  shows "post (openLive opp pp s) tr (abortedAtLongLeg st opp)"
  using assms
  by (auto simp: openLive_def Let_def sameLedger_def
        intro!: binance_leverage_segment abortedAtLongLeg_no_long)

lemma makePositionPair_long_exchange:
  "pos_exchange (pair_longPosition (makePositionPair cfg a b c now opp)) = op_buyExchange opp"
  by (simp add: makePositionPair_def makeLongPosition_def Let_def)

lemma openAfterWait_segment:
  assumes fr: "sameLedger st s" and g: "pendingOrders s = pendingOrders st"
    and nl: "\<not> list_ex (\<lambda>y. isOpenLongOrder (fst y)) tr"
    and ns: "\<not> list_ex (\<lambda>y. isOpenShortOrder (fst y)) tr"
  shows "post (openAfterWait pairId longId shortId now opp t s) tr (abortedAtLongLeg st opp)"
  using assms
  by (auto simp: openAfterWait_def Let_def openCommit_def makePositionPair_long_exchange
        intro!: openLive_segment abortedAtLongLeg_no_long)

lemma openPositionPair_post:
  "post (openPositionPair pairId longId shortId opp now st) [] (abortedAtLongLeg st opp)"
  by (auto simp: openPositionPair_def Let_def sameLedger_def
        intro!: openAfterWait_segment abortedAtLongLeg_no_long)

lemma finalState_Some: "finalState m = Some s \<Longrightarrow> m = Finished s"
  by (cases m) simp_all

text \<open>
  C3. In live mode, take any run of \<open>openPositionPair\<close> in which the venue rejects the
  order for the long leg. The run has finished, the rejected order is the last request it
  made and no order for the short leg was made; a \<open>TradingError\<close> with operation
  \<open>OPEN_LONG\<close> is the last recorded error; the opportunity was skipped with
  \<open>ORDER_CREATION_FAILED\<close>; and the ledger holds no new pair: open and closed positions,
  balance and guard are as before the call.
\<close>

theorem failed_long_leg_aborts_open:
  assumes live: "\<not> trading_testMode (config st)"
    and r: "run answers (openPositionPair pairId longId shortId opp now st) [] = (final, tr)"
    and rej: "(req, t, Rejected msg) \<in> set tr"
    and long: "isOpenLongOrder req"
  shows "\<exists>st'. final = Finished st'
          \<and> last tr = (req, t, Rejected msg)
          \<and> \<not> list_ex (\<lambda>y. isOpenShortOrder (fst y)) tr
          \<and> tradingErrors st' \<noteq> []
          \<and> last (tradingErrors st') =
               \<lparr> err_timestamp = t, err_symbol = op_symbol opp, err_operation = OPEN_LONG,
                 err_exchange = op_buyExchange opp, err_errorMessage = msg \<rparr>
          \<and> skipCalls st' = skipCalls st @ [(opp, ORDER_CREATION_FAILED)]
          \<and> openPositions st' = openPositions st
          \<and> closedPositions st' = closedPositions st
          \<and> currentBalance st' = currentBalance st
          \<and> pendingOrders st' = pendingOrders st"
proof -
  have "abortedAtLongLeg st opp (finalState final) tr"
    by (rule post_run[OF openPositionPair_post r])
  moreover have "longOrderRejected (req, t, Rejected msg)"
    using long by (simp add: longOrderRejected_def)
  ultimately obtain st' where
    f: "finalState final = Some st'" and l: "last tr = (req, t, Rejected msg)"
    and s: "\<not> list_ex (\<lambda>y. isOpenShortOrder (fst y)) tr"
    and e: "tradingErrors st' \<noteq> []"
      "err_operation (last (tradingErrors st')) = OPEN_LONG"
      "err_exchange (last (tradingErrors st')) = op_buyExchange opp"
      "err_symbol (last (tradingErrors st')) = op_symbol opp"
      "err_timestamp (last (tradingErrors st')) = t"
      "err_errorMessage (last (tradingErrors st')) = msg"
    and k: "skipCalls st' = skipCalls st @ [(opp, ORDER_CREATION_FAILED)]"
      "openPositions st' = openPositions st" "closedPositions st' = closedPositions st"
      "currentBalance st' = currentBalance st" "pendingOrders st' = pendingOrders st"
    using rej unfolding abortedAtLongLeg_def by fastforce
  have "last (tradingErrors st') =
          \<lparr> err_timestamp = t, err_symbol = op_symbol opp, err_operation = OPEN_LONG,
            err_exchange = op_buyExchange opp, err_errorMessage = msg \<rparr>"
    using e by (intro TradingError.equality) simp_all
  with finalState_Some[OF f] l s e(1) k show ?thesis by blast
qed

lemma liveExecutor_eval:
  "config liveExecutor = liveConfig" "binance liveExecutor" "mexc liveExecutor"
  "pendingOrders liveExecutor = 0" "lastOrderTime liveExecutor = 0"
  "currentBalance liveExecutor = 10000" "openPositions liveExecutor = []"
  "closedPositions liveExecutor = []" "skipCalls liveExecutor = []"
  "tradingErrors liveExecutor = []"
  by (simp_all add: liveExecutor_def constructor_def liveConfig_def exampleConfig_def)

lemma liveConfig_eval:
  "\<not> trading_testMode liveConfig" "trading_positionSizeUSD liveConfig = 100"
  "trading_maxOpenPositions liveConfig = 3" "trading_leverage liveConfig = 1"
  "trading_enabled liveConfig" "slippage_percent liveConfig = 0.1"
  "trading_positionTimeoutSeconds liveConfig = 60"
  by (simp_all add: liveConfig_def exampleConfig_def)

lemma long_rejected_trace:
  "snd (run longRejectedAnswers
          (openPositionPair ''pair-1'' ''long-1'' ''short-1'' exampleOpportunity 1000 liveExecutor) [])
   = [(BinanceSetLeverage ''BTCUSDT'' 1, 1001, Resolved 0),
      (MexcSetLeverage ''BTC_USDT'' 1, 1002, Resolved 0),
      (BinanceCreateMarketOrder ''BTCUSDT'' BUY 1 False, 1003, Rejected ''insufficient margin'')]"
  by (simp add: longRejectedAnswers_def openPositionPair_def openAfterWait_def openLive_def
        setBinanceLeverage_def setMexcLeverage_def openLongLeg_def Let_def
        liveExecutor_eval liveConfig_eval exampleOpportunity_eval
        makePositionPair_def makeLongPosition_def makeShortPosition_def
        calculateExecutionPrice_def)

text \<open>
  The statement at the live executor: both leverage calls succeed, Binance rejects the buy
  order of the long leg.
\<close>

theorem failed_long_leg_aborts_open_witness:
  "\<not> trading_testMode (config liveExecutor)
   \<and> (BinanceCreateMarketOrder ''BTCUSDT'' BUY 1 False, 1003, Rejected ''insufficient margin'')
       \<in> set (snd (run longRejectedAnswers
            (openPositionPair ''pair-1'' ''long-1'' ''short-1'' exampleOpportunity 1000
               liveExecutor) []))
   \<and> isOpenLongOrder (BinanceCreateMarketOrder ''BTCUSDT'' BUY 1 False)
   \<and> (\<exists>st'. fst (run longRejectedAnswers
            (openPositionPair ''pair-1'' ''long-1'' ''short-1'' exampleOpportunity 1000
               liveExecutor) []) = Finished st'
          \<and> tradingErrors st' \<noteq> []
          \<and> last (tradingErrors st') =
               \<lparr> err_timestamp = 1003, err_symbol = ''BTCUSDT'', err_operation = OPEN_LONG,
                 err_exchange = Binance, err_errorMessage = ''insufficient margin'' \<rparr>
          \<and> skipCalls st' = [(exampleOpportunity, ORDER_CREATION_FAILED)]
          \<and> openPositions st' = []
          \<and> currentBalance st' = 10000
          \<and> pendingOrders st' = 0)"
proof -
  let ?m = "openPositionPair ''pair-1'' ''long-1'' ''short-1'' exampleOpportunity 1000 liveExecutor"
  let ?req = "BinanceCreateMarketOrder ''BTCUSDT'' BUY 1 False"
  have live: "\<not> trading_testMode (config liveExecutor)"
    by (simp add: liveExecutor_eval liveConfig_eval)
  have r: "run longRejectedAnswers ?m [] =
            (fst (run longRejectedAnswers ?m []), snd (run longRejectedAnswers ?m []))"
    by simp
  have mem: "(?req, 1003, Rejected ''insufficient margin'')
              \<in> set (snd (run longRejectedAnswers ?m []))"
    by (simp add: long_rejected_trace)
  have long: "isOpenLongOrder ?req" by simp
  show ?thesis
    using failed_long_leg_aborts_open[OF live r mem long] live mem
    by (simp add: liveExecutor_eval exampleOpportunity_eval) blast
qed


section \<open>The timeout sweep\<close>

lemma sameSetup_refl: "sameSetup st st"
  by (simp add: sameSetup_def)

lemma sameSetup_trans: "sameSetup st s \<Longrightarrow> sameSetup s s' \<Longrightarrow> sameSetup st s'"
  by (simp add: sameSetup_def)

lemma sameSetup_due:
  "sameSetup st s \<Longrightarrow> timeoutDue now s p = timeoutDue now st p"
  "sameSetup st s \<Longrightarrow> pricesFor s p = pricesFor st p"
  "sameSetup st s \<Longrightarrow> timeoutClosed s p t = timeoutClosed st p t"
  "sameSetup st s \<Longrightarrow> callsPerClose (config s) = callsPerClose (config st)"
  by (simp_all add: sameSetup_def timeoutDue_def pricesFor_def timeoutClosed_def)

lemma timeoutOne_not_due:
  assumes "map_of (openPositions s) k = Some p" and "\<not> timeoutDue now s p"
  shows "timeoutOne now k t s = Finished s"
  using assms
  by (auto simp: timeoutOne_def timeoutDue_def pricesFor_def split: option.splits)

lemma timeoutOne_due:
  assumes "map_of (openPositions s) k = Some p" and "timeoutDue now s p"
  shows "timeoutOne now k t s =
    closePositionPair k TIMEOUT (pr_buyPrice (the (pricesFor s p)))
      (pr_sellPrice (the (pricesFor s p))) t s"
  using assms
  by (auto simp: timeoutOne_def timeoutDue_def pricesFor_def split: option.splits)

lemma timeoutOne_body:
  assumes ss: "sameSetup st s" and op: "openPositions s = kept @ (k, p) # rest"
    and nk: "k \<notin> fst ` set kept" and nr: "k \<notin> fst ` set rest"
  shows "finishesWithin (timeoutOne now k t s) (callsPerClose (config st))
     (\<lambda>s'. sameSetup st s'
        \<and> openPositions s' = kept @ (if timeoutDue now st p then [] else [(k, p)]) @ rest
        \<and> (\<exists>cs. closedPositions s' = closedPositions s @ cs
              \<and> (if timeoutDue now st p then \<exists>t'. cs = [timeoutClosed st p t'] else cs = [])))"
proof -
  have m: "map_of (openPositions s) k = Some p"
    unfolding op by (rule map_of_split[OF nk])
  show ?thesis
  proof (cases "timeoutDue now st p")
    case False
    then have "\<not> timeoutDue now s p" using ss by (simp add: sameSetup_due)
    from timeoutOne_not_due[OF m this] False ss op show ?thesis by simp
  next
    case True
    then have d: "timeoutDue now s p" using ss by (simp add: sameSetup_due)
    have "finishesWithin
       (closePositionPair k TIMEOUT (pr_buyPrice (the (pricesFor s p)))
          (pr_sellPrice (the (pricesFor s p))) t s)
       (callsPerClose (config s))
       (\<lambda>s'. openPositions s' = kept @ rest
          \<and> closedPositions s' = closedPositions s @
               [closedPair (config s) p TIMEOUT (pr_buyPrice (the (pricesFor s p)))
                  (pr_sellPrice (the (pricesFor s p))) t]
          \<and> sameSetup s s')"
      by (rule closePositionPair_finishes[OF op nk nr])
    then show ?thesis
      unfolding timeoutOne_due[OF m d]
    proof (rule finishesWithin_mono)
      show "callsPerClose (config s) \<le> callsPerClose (config st)"
        using ss by (simp add: sameSetup_due)
      fix s'
      assume a: "openPositions s' = kept @ rest
          \<and> closedPositions s' = closedPositions s @
               [closedPair (config s) p TIMEOUT (pr_buyPrice (the (pricesFor s p)))
                  (pr_sellPrice (the (pricesFor s p))) t]
          \<and> sameSetup s s'"
      have eq: "closedPair (config s) p TIMEOUT (pr_buyPrice (the (pricesFor s p)))
                  (pr_sellPrice (the (pricesFor s p))) t = timeoutClosed st p t"
        using ss by (simp add: timeoutClosed_def sameSetup_def pricesFor_def)
      have "\<exists>t'. [timeoutClosed st p t] = [timeoutClosed st p t']" by blast
      with a True ss show "sameSetup st s'
        \<and> openPositions s' = kept @ (if timeoutDue now st p then [] else [(k, p)]) @ rest
        \<and> (\<exists>cs. closedPositions s' = closedPositions s @ cs
              \<and> (if timeoutDue now st p then \<exists>t'. cs = [timeoutClosed st p t'] else cs = []))"
        unfolding eq by (auto intro: sameSetup_trans)
    qed
  qed
qed

lemma concat_map_keep:
  "concat (map (\<lambda>e. if P e then [] else [e]) qs) = filter (\<lambda>e. \<not> P e) qs"
  by (induction qs) auto

lemma sweep_characterisation:
  assumes d: "distinct (map fst (openPositions st))"
  shows "finishesWithin (checkPositionTimeouts now st)
      (callsPerClose (config st) * length (openPositions st))
      (\<lambda>st'. sameSetup st st'
         \<and> openPositions st' = filter (\<lambda>e. \<not> timeoutDue now st (snd e)) (openPositions st)
         \<and> (\<exists>css. closedPositions st' = closedPositions st @ concat css
               \<and> list_all2 (\<lambda>e cs. if timeoutDue now st (snd e)
                                     then \<exists>t'. cs = [timeoutClosed st (snd e) t']
                                     else cs = [])
                    (openPositions st) css))"
proof -
  let ?g = "\<lambda>e. if timeoutDue now st (snd e) then [] else [e]"
  let ?R = "\<lambda>e cs. if timeoutDue now st (snd e)
                   then \<exists>t'. cs = [timeoutClosed st (snd e) t'] else cs = []"
  have "finishesWithin (forEachKey (timeoutOne now) (map fst (openPositions st)) now st)
      (callsPerClose (config st) * length (openPositions st))
      (\<lambda>s'. sameSetup st s' \<and> openPositions s' = [] @ concat (map ?g (openPositions st))
         \<and> (\<exists>css. closedPositions s' = closedPositions st @ concat css
               \<and> list_all2 ?R (openPositions st) css))"
  proof (rule forEachKey_ledger[where g = ?g and R = ?R])
    fix k p t s kept rest
    assume "sameSetup st s" "openPositions s = kept @ (k, p) # rest"
      "k \<notin> fst ` set kept" "k \<notin> fst ` set rest"
    from timeoutOne_body[OF this, of now t]
    show "finishesWithin (timeoutOne now k t s) (callsPerClose (config st))
        (\<lambda>s'. sameSetup st s' \<and> openPositions s' = kept @ ?g (k, p) @ rest
           \<and> (\<exists>cs. closedPositions s' = closedPositions s @ cs \<and> ?R (k, p) cs))"
      by (simp only: snd_conv)
  qed (use d in \<open>auto simp: sameSetup_refl\<close>)
  then show ?thesis
    by (simp add: checkPositionTimeouts_def concat_map_keep)
qed

lemma map_of_filter_distinct:
  "distinct (map fst ps) \<Longrightarrow> (k, p) \<in> set ps \<Longrightarrow>
   map_of (filter P ps) k = (if P (k, p) then Some p else None)"
proof (induction ps)
  case Nil
  then show ?case by simp
next
  case (Cons a ps)
  then show ?case
    by (cases a) (auto simp: map_of_eq_None_iff image_iff)
qed

lemma list_all2_member:
  "list_all2 R xs ys \<Longrightarrow> x \<in> set xs \<Longrightarrow> \<exists>y \<in> set ys. R x y"
  by (induction xs ys rule: list_all2_induct) auto

lemma reached_mono: "reached now d \<Longrightarrow> now \<le> now2 \<Longrightarrow> reached now2 d"
  by (cases d) auto

lemma sweep_entry:
  assumes d: "distinct (map fst (openPositions st))"
    and e: "(k, p) \<in> set (openPositions st)"
    and n: "callsPerClose (config st) * length (openPositions st) \<le> length answers"
  shows "\<exists>st'. fst (run answers (checkPositionTimeouts now st) []) = Finished st'
      \<and> sameSetup st st'
      \<and> openPositions st' = filter (\<lambda>e. \<not> timeoutDue now st (snd e)) (openPositions st)
      \<and> map_of (openPositions st') k = (if timeoutDue now st p then None else Some p)
      \<and> (timeoutDue now st p \<longrightarrow> (\<exists>t. timeoutClosed st p t \<in> set (closedPositions st')))"
proof -
  let ?R = "\<lambda>e cs. if timeoutDue now st (snd e)
                   then \<exists>t'. cs = [timeoutClosed st (snd e) t'] else cs = []"
  from finishesWithin_run[OF sweep_characterisation[OF d] n, of now "[]"]
  obtain st' tr' css where r: "run answers (checkPositionTimeouts now st) [] = (Finished st', tr')"
    and ss: "sameSetup st st'"
    and op: "openPositions st' = filter (\<lambda>e. \<not> timeoutDue now st (snd e)) (openPositions st)"
    and cl: "closedPositions st' = closedPositions st @ concat css"
    and la: "list_all2 ?R (openPositions st) css"
    by blast
  have m: "map_of (openPositions st') k = (if timeoutDue now st p then None else Some p)"
    unfolding op using map_of_filter_distinct[OF d e, of "\<lambda>e. \<not> timeoutDue now st (snd e)"]
    by simp
  have c: "\<exists>t. timeoutClosed st p t \<in> set (closedPositions st')" if due: "timeoutDue now st p"
  proof -
    from list_all2_member[OF la e] obtain cs where "cs \<in> set css" "?R (k, p) cs"
      by blast
    with due obtain t' where "cs = [timeoutClosed st p t']" by auto
    with \<open>cs \<in> set css\<close> have "timeoutClosed st p t' \<in> set (concat css)"
      by (force simp: set_concat)
    then show ?thesis using cl by auto
  qed
  from r ss op m c show ?thesis by auto
qed

lemma closedPair_sel:
  "pair_status (closedPair cfg p reason buy sell t) = (if reason = TIMEOUT then TIMEOUT_CLOSED else CLOSED)"
  "pair_closeReason (closedPair cfg p reason buy sell t) = Some reason"
  "pair_closeTime (closedPair cfg p reason buy sell t) = Some t"
  "pair_id (closedPair cfg p reason buy sell t) = pair_id p"
  "pair_symbol (closedPair cfg p reason buy sell t) = pair_symbol p"
  by (simp_all add: closedPair_def)


section \<open>Timeout closes\<close>

text \<open>
  C7, as amended. Take a sweep at time \<open>now\<close> over a ledger with one entry per key, run
  to its end (no remote call in simulated mode, at most five per close in live mode), and
  a pair \<open>p\<close> of the ledger. The sweep removes the pair from the open map exactly when
  the time has reached the deadline \<open>timeoutAt\<close> of the pair and the price getter returns
  prices for its symbol; then the pair is in the closed history with status
  \<open>TIMEOUT_CLOSED\<close> and reason \<open>TIMEOUT\<close>. Otherwise, and in particular before
  the deadline and for an unbounded deadline, the pair stays in the open map as it is. A
  pair that is opened under a configured timeout of zero has an unbounded deadline.
\<close>

theorem timeout_sweep_closes_when_due:
  assumes d: "distinct (map fst (openPositions st))"
    and e: "(k, p) \<in> set (openPositions st)"
    and n: "callsPerClose (config st) * length (openPositions st) \<le> length answers"
  shows "(\<exists>st'. fst (run answers (checkPositionTimeouts now st) []) = Finished st'
      \<and> (map_of (openPositions st') k = None
           \<longleftrightarrow> reached now (pair_timeoutAt p) \<and> pricesFor st p \<noteq> None)
      \<and> (reached now (pair_timeoutAt p) \<and> pricesFor st p \<noteq> None \<longrightarrow>
           (\<exists>t. timeoutClosed st p t \<in> set (closedPositions st')
               \<and> pair_status (timeoutClosed st p t) = TIMEOUT_CLOSED
               \<and> pair_closeReason (timeoutClosed st p t) = Some TIMEOUT))
      \<and> (\<not> (reached now (pair_timeoutAt p) \<and> pricesFor st p \<noteq> None) \<longrightarrow>
           map_of (openPositions st') k = Some p)
      \<and> (pair_timeoutAt p = Infinity \<longrightarrow> map_of (openPositions st') k = Some p))
    \<and> (trading_positionTimeoutSeconds cfg = 0 \<longrightarrow>
          pair_timeoutAt (makePositionPair cfg pairId longId shortId openedAt opp) = Infinity)"
proof -
  from sweep_entry[OF d e n, of now] obtain st' where
    r: "fst (run answers (checkPositionTimeouts now st) []) = Finished st'"
    and m: "map_of (openPositions st') k = (if timeoutDue now st p then None else Some p)"
    and c: "timeoutDue now st p \<longrightarrow> (\<exists>t. timeoutClosed st p t \<in> set (closedPositions st'))"
    by blast
  have s: "pair_status (timeoutClosed st p t) = TIMEOUT_CLOSED
           \<and> pair_closeReason (timeoutClosed st p t) = Some TIMEOUT" for t
    by (simp add: timeoutClosed_def closedPair_sel)
  have i: "pair_timeoutAt p = Infinity \<Longrightarrow> \<not> timeoutDue now st p"
    by (simp add: timeoutDue_def)
  have "(map_of (openPositions st') k = None
           \<longleftrightarrow> reached now (pair_timeoutAt p) \<and> pricesFor st p \<noteq> None)
      \<and> (reached now (pair_timeoutAt p) \<and> pricesFor st p \<noteq> None \<longrightarrow>
           (\<exists>t. timeoutClosed st p t \<in> set (closedPositions st')
               \<and> pair_status (timeoutClosed st p t) = TIMEOUT_CLOSED
               \<and> pair_closeReason (timeoutClosed st p t) = Some TIMEOUT))
      \<and> (\<not> (reached now (pair_timeoutAt p) \<and> pricesFor st p \<noteq> None) \<longrightarrow>
           map_of (openPositions st') k = Some p)
      \<and> (pair_timeoutAt p = Infinity \<longrightarrow> map_of (openPositions st') k = Some p)"
    using m c s i unfolding timeoutDue_def by auto
  with r show ?thesis by (auto simp: makePositionPair_sel)
qed

lemma ethPair_eval:
  "pair_timeoutAt ethPair = At 61000" "pair_symbol ethPair = ''ETHUSDT''"
  "pair_status ethPair = OPEN" "pair_id ethPair = ''pair-1''"
  by (simp_all add: ethPair_def makePositionPair_sel zeroFeeConfig_def exampleConfig_def
        otherOpportunity_def)

lemma pricedExecutor_eval:
  "config pricedExecutor = zeroFeeConfig"
  "openPositions pricedExecutor = [(''pair-1'', ethPair)]"
  "getPricesFn pricedExecutor = Some ethPrices"
  "currentBalance pricedExecutor = 8000"
  by (simp_all add: pricedExecutor_def setPriceGetter_def onePairExecutor_eval ethPair_def)

lemma unpricedExecutor_eval:
  "config unpricedExecutor = zeroFeeConfig"
  "openPositions unpricedExecutor = [(''pair-1'', ethPair)]"
  "getPricesFn unpricedExecutor = Some (\<lambda>symbol. None)"
  "currentBalance unpricedExecutor = 8000"
  by (simp_all add: unpricedExecutor_def setPriceGetter_def onePairExecutor_eval ethPair_def)

lemma zeroFeeConfig_eval:
  "trading_testMode zeroFeeConfig" "trading_positionSizeUSD zeroFeeConfig = 1000"
  "fees_binance_taker zeroFeeConfig = 0" "fees_mexc_taker zeroFeeConfig = 0"
  "callsPerClose zeroFeeConfig = 0"
  by (simp_all add: zeroFeeConfig_def exampleConfig_def callsPerClose_def)

text \<open>
  The statement at a simulated executor that holds one pair, due from 61000 on, with a
  price getter that knows its symbol: the sweep at 70000 closes the pair.
\<close>

theorem timeout_sweep_closes_when_due_witness:
  "distinct (map fst (openPositions pricedExecutor))
   \<and> (''pair-1'', ethPair) \<in> set (openPositions pricedExecutor)
   \<and> callsPerClose (config pricedExecutor) * length (openPositions pricedExecutor) \<le> length ([] :: (real \<times> response) list)
   \<and> reached 70000 (pair_timeoutAt ethPair) \<and> pricesFor pricedExecutor ethPair \<noteq> None
   \<and> trading_positionTimeoutSeconds zeroTimeoutConfig = 0
   \<and> (\<exists>st'. fst (run [] (checkPositionTimeouts 70000 pricedExecutor) []) = Finished st'
         \<and> map_of (openPositions st') ''pair-1'' = None
         \<and> (\<exists>t. timeoutClosed pricedExecutor ethPair t \<in> set (closedPositions st')
               \<and> pair_status (timeoutClosed pricedExecutor ethPair t) = TIMEOUT_CLOSED
               \<and> pair_closeReason (timeoutClosed pricedExecutor ethPair t) = Some TIMEOUT))
   \<and> pair_timeoutAt (makePositionPair zeroTimeoutConfig ''pair-9'' ''long-9'' ''short-9'' 1000
        exampleOpportunity) = Infinity"
proof -
  have h: "distinct (map fst (openPositions pricedExecutor))"
    "(''pair-1'', ethPair) \<in> set (openPositions pricedExecutor)"
    "callsPerClose (config pricedExecutor) * length (openPositions pricedExecutor)
       \<le> length ([] :: (real \<times> response) list)"
    by (simp_all add: pricedExecutor_eval zeroFeeConfig_eval)
  have g: "reached 70000 (pair_timeoutAt ethPair)" "pricesFor pricedExecutor ethPair \<noteq> None"
    "trading_positionTimeoutSeconds zeroTimeoutConfig = 0"
    by (simp_all add: ethPair_eval pricesFor_def pricedExecutor_eval ethPrices_def
          zeroTimeoutConfig_def exampleConfig_def)
  show ?thesis
    using timeout_sweep_closes_when_due[OF h, where now = 70000 and cfg = zeroTimeoutConfig
        and pairId = "''pair-9''" and longId = "''long-9''" and shortId = "''short-9''"
        and openedAt = 1000 and opp = exampleOpportunity] h g
    by simp blast
qed

text \<open>
  C7 as stated fails when the price getter has no prices for the symbol: the deadline of
  the pair has been reached at 70000, and the sweep leaves the pair open and the executor
  as it is.
\<close>

theorem timeout_sweep_without_prices_counterexample:
  "(''pair-1'', ethPair) \<in> set (openPositions unpricedExecutor)
   \<and> reached 70000 (pair_timeoutAt ethPair)
   \<and> checkPositionTimeouts 70000 unpricedExecutor = Finished unpricedExecutor
   \<and> map_of (openPositions unpricedExecutor) ''pair-1'' = Some ethPair
   \<and> pair_status ethPair = OPEN"
  by (simp add: checkPositionTimeouts_def timeoutOne_def unpricedExecutor_eval ethPair_eval)


section \<open>An overdue pair without prices\<close>

lemma sweep_nothing_due:
  assumes "\<forall>e \<in> set (openPositions st). \<not> timeoutDue now st (snd e)"
    and "set ks \<subseteq> fst ` set (openPositions st)"
  shows "forEachKey (timeoutOne now) ks t st = Finished st"
  using assms(2)
proof (induction ks arbitrary: t)
  case Nil
  then show ?case by simp
next
  case (Cons k ks)
  then obtain p where m: "map_of (openPositions st) k = Some p"
    by (cases "map_of (openPositions st) k") (auto simp: map_of_eq_None_iff)
  then have "(k, p) \<in> set (openPositions st)" by (rule map_of_SomeD)
  with assms(1) have "\<not> timeoutDue now st p" by auto
  from timeoutOne_not_due[OF m this] Cons show ?case by simp
qed

lemma pricesFor_setPriceGetter:
  "pricesFor (setPriceGetter fn s) p = fn (pair_symbol p)"
  "config (setPriceGetter fn s) = config s"
  "openPositions (setPriceGetter fn s) = openPositions s"
  by (simp_all add: pricesFor_def setPriceGetter_def)

text \<open>
  C10. Take a pair of the ledger whose deadline has been reached at the time of the sweep
  while the price getter returns no prices for its symbol. The body of the sweep for that
  pair is the identity on the whole state of the executor (ledger, balance, statistics), in
  whatever state the sweep reaches the pair; after the whole sweep the pair is still in the
  open map with all its fields; if no pair of the ledger is closed by the sweep the
  executor is unchanged; and a later sweep at which the getter returns prices closes the
  pair.
\<close>

theorem overdue_pair_without_prices_stays_open:
  assumes d: "distinct (map fst (openPositions st))"
    and e: "(k, p) \<in> set (openPositions st)"
    and due: "reached now (pair_timeoutAt p)"
    and np: "pricesFor st p = None"
    and n: "callsPerClose (config st) * length (openPositions st) \<le> length answers"
  shows "(\<forall>s t. sameSetup st s \<and> map_of (openPositions s) k = Some p \<longrightarrow>
            timeoutOne now k t s = Finished s)
    \<and> (\<exists>st'. fst (run answers (checkPositionTimeouts now st) []) = Finished st'
          \<and> (k, p) \<in> set (openPositions st')
          \<and> map_of (openPositions st') k = Some p
          \<and> ((\<forall>e \<in> set (openPositions st). \<not> timeoutDue now st (snd e)) \<longrightarrow> st' = st)
          \<and> (\<forall>fn now2 answers2.
                fn (pair_symbol p) \<noteq> None \<and> now \<le> now2
                \<and> callsPerClose (config st) * length (openPositions st) \<le> length answers2 \<longrightarrow>
                (\<exists>st''. fst (run answers2 (checkPositionTimeouts now2 (setPriceGetter fn st')) [])
                          = Finished st''
                    \<and> map_of (openPositions st'') k = None
                    \<and> (\<exists>t2. timeoutClosed (setPriceGetter fn st') p t2
                               \<in> set (closedPositions st'')))))"
proof -
  have nd: "\<not> timeoutDue now st p" using np by (simp add: timeoutDue_def)
  have m: "map_of (openPositions st) k = Some p"
    using d e by (simp add: map_of_eq_Some_iff)
  have one: "timeoutOne now k t s = Finished s"
    if "sameSetup st s \<and> map_of (openPositions s) k = Some p" for s t
  proof -
    from that have ss: "sameSetup st s" and ms: "map_of (openPositions s) k = Some p"
      by simp_all
    have "\<not> timeoutDue now s p" using nd by (simp add: sameSetup_due(1)[OF ss])
    with ms show ?thesis by (rule timeoutOne_not_due)
  qed
  from sweep_entry[OF d e n, of now] nd obtain st' where
    r: "fst (run answers (checkPositionTimeouts now st) []) = Finished st'"
    and ss: "sameSetup st st'"
    and op: "openPositions st' = filter (\<lambda>e. \<not> timeoutDue now st (snd e)) (openPositions st)"
    and m': "map_of (openPositions st') k = Some p"
    by auto
  have e': "(k, p) \<in> set (openPositions st')" using m' by (rule map_of_SomeD)
  have d': "distinct (map fst (openPositions st'))"
    unfolding op using d by (simp add: distinct_map_filter)
  have len: "length (openPositions st') \<le> length (openPositions st)"
    unfolding op by simp
  have cfg: "config st' = config st" using ss by (simp add: sameSetup_def)
  have same: "st' = st" if "\<forall>e \<in> set (openPositions st). \<not> timeoutDue now st (snd e)"
  proof -
    have "checkPositionTimeouts now st = Finished st"
      unfolding checkPositionTimeouts_def
      by (rule sweep_nothing_due[OF that]) simp
    with r show ?thesis by (simp add: run_Finished)
  qed
  have later: "\<exists>st''. fst (run answers2 (checkPositionTimeouts now2 (setPriceGetter fn st')) [])
                          = Finished st''
                    \<and> map_of (openPositions st'') k = None
                    \<and> (\<exists>t2. timeoutClosed (setPriceGetter fn st') p t2
                               \<in> set (closedPositions st''))"
    if h: "fn (pair_symbol p) \<noteq> None" "now \<le> now2"
      "callsPerClose (config st) * length (openPositions st) \<le> length answers2"
    for fn now2 answers2
  proof -
    let ?s2 = "setPriceGetter fn st'"
    have d2: "distinct (map fst (openPositions ?s2))" using d' by (simp add: pricesFor_setPriceGetter)
    have e2: "(k, p) \<in> set (openPositions ?s2)" using e' by (simp add: pricesFor_setPriceGetter)
    have "callsPerClose (config ?s2) * length (openPositions ?s2)
            \<le> callsPerClose (config st) * length (openPositions st)"
      using len cfg by (simp add: pricesFor_setPriceGetter)
    with h(3) have n2: "callsPerClose (config ?s2) * length (openPositions ?s2) \<le> length answers2"
      by simp
    have due2: "timeoutDue now2 ?s2 p"
      using h(1) reached_mono[OF due h(2)] by (simp add: timeoutDue_def pricesFor_setPriceGetter)
    from sweep_entry[OF d2 e2 n2, of now2] due2 show ?thesis by auto
  qed
  from one r e' m' same later show ?thesis by blast
qed

text \<open>
  The statement at the executor whose price getter knows nothing: the sweep at 70000 changes
  nothing, and the sweep at 80000 with prices for ETHUSDT closes the pair.
\<close>

theorem overdue_pair_without_prices_witness:
  "distinct (map fst (openPositions unpricedExecutor))
   \<and> (''pair-1'', ethPair) \<in> set (openPositions unpricedExecutor)
   \<and> reached 70000 (pair_timeoutAt ethPair)
   \<and> pricesFor unpricedExecutor ethPair = None
   \<and> callsPerClose (config unpricedExecutor) * length (openPositions unpricedExecutor)
        \<le> length ([] :: (real \<times> response) list)
   \<and> timeoutOne 70000 ''pair-1'' 70000 unpricedExecutor = Finished unpricedExecutor
   \<and> (\<exists>st'. fst (run [] (checkPositionTimeouts 70000 unpricedExecutor) []) = Finished st'
         \<and> map_of (openPositions st') ''pair-1'' = Some ethPair
         \<and> st' = unpricedExecutor
         \<and> (\<exists>st''. fst (run [] (checkPositionTimeouts 80000 (setPriceGetter ethPrices st')) [])
                      = Finished st''
                \<and> map_of (openPositions st'') ''pair-1'' = None))"
proof -
  have h: "distinct (map fst (openPositions unpricedExecutor))"
    "(''pair-1'', ethPair) \<in> set (openPositions unpricedExecutor)"
    "reached 70000 (pair_timeoutAt ethPair)"
    "pricesFor unpricedExecutor ethPair = None"
    "callsPerClose (config unpricedExecutor) * length (openPositions unpricedExecutor)
       \<le> length ([] :: (real \<times> response) list)"
    by (simp_all add: unpricedExecutor_eval zeroFeeConfig_eval ethPair_eval pricesFor_def)
  have none: "\<forall>e \<in> set (openPositions unpricedExecutor).
                \<not> timeoutDue 70000 unpricedExecutor (snd e)"
    by (simp add: unpricedExecutor_eval timeoutDue_def pricesFor_def)
  have m: "sameSetup unpricedExecutor unpricedExecutor
           \<and> map_of (openPositions unpricedExecutor) ''pair-1'' = Some ethPair"
    by (simp add: sameSetup_def unpricedExecutor_eval)
  have l: "ethPrices (pair_symbol ethPair) \<noteq> None \<and> (70000::real) \<le> 80000
     \<and> callsPerClose (config unpricedExecutor) * length (openPositions unpricedExecutor)
          \<le> length ([] :: (real \<times> response) list)"
    by (simp add: ethPrices_def ethPair_eval unpricedExecutor_eval zeroFeeConfig_eval)
  from overdue_pair_without_prices_stays_open[OF h] none m l
  have "timeoutOne 70000 ''pair-1'' 70000 unpricedExecutor = Finished unpricedExecutor
    \<and> (\<exists>st'. fst (run [] (checkPositionTimeouts 70000 unpricedExecutor) []) = Finished st'
         \<and> map_of (openPositions st') ''pair-1'' = Some ethPair
         \<and> st' = unpricedExecutor
         \<and> (\<exists>st''. fst (run [] (checkPositionTimeouts 80000 (setPriceGetter ethPrices st')) [])
                      = Finished st''
                \<and> map_of (openPositions st'') ''pair-1'' = None))"
    by blast
  with h show ?thesis by blast
qed


section \<open>Closing on price convergence\<close>






lemma zeroFeeConfig_more:
  "trading_closeOnSpreadConvergence zeroFeeConfig"
  "trading_priceConvergencePercent zeroFeeConfig = 0.05"
  by (simp_all add: zeroFeeConfig_def exampleConfig_def)


lemma onePairExecutor_pair:
  "openPositions onePairExecutor = [(''pair-1'', ethPair)]"
  by (simp add: onePairExecutor_eval ethPair_def)





section \<open>An open finishes after at most ten remote calls\<close>












section \<open>The spread scanner\<close>




lemma checkArbitrage_no_crossing:
  assumes "direction price1 price2 = None"
  shows "checkArbitrage pairId longId shortId price1 price2 symbol now d
         = Finished (d\<lparr>totalComparisons := totalComparisons d + 1\<rparr>)"
  using assms by (simp add: checkArbitrage_def Let_def)



subsection \<open>Evaluation of the ticks and of the detector\<close>





subsection \<open>When an opportunity is counted\<close>




section \<open>Propagation of the tick to the open pairs\<close>

lemma ethTick_eval:
  "tk_ask ethBinanceTick = 100.5" "tk_bid ethBinanceTick = 100.4"
  "tk_exchange ethBinanceTick = Binance" "tk_askQty ethBinanceTick = Some 20"
  "tk_ask ethMexcTick = 100.55" "tk_bid ethMexcTick = 100.45"
  "tk_ask ethMexcCrossTick = 100.7" "tk_bid ethMexcCrossTick = 100.6"
  "tk_exchange ethMexcCrossTick = Mexc" "tk_bidQty ethMexcCrossTick = None"
  by (simp_all add: ethBinanceTick_def ethMexcTick_def ethMexcCrossTick_def)

lemma onePairDetector_eval:
  "tradeExecutor onePairDetector = onePairExecutor"
  "opportunitiesFound onePairDetector = 1" "totalComparisons onePairDetector = 1"
  by (simp_all add: onePairDetector_def)

lemma ethPair_fresh:
  "pair_currentLongPrice ethPair = None" "pair_currentShortPrice ethPair = None"
  "pair_currentSpread ethPair = None"
  "pos_exchange (pair_longPosition ethPair) = Binance"
  by (simp_all add: ethPair_def makePositionPair_def makeLongPosition_def Let_def
        otherOpportunity_def exampleOpportunity_eval)

lemma zeroFeeConfig_minSpread: "arbitrage_minSpreadPercent zeroFeeConfig = 0.3"
  by (simp add: zeroFeeConfig_def exampleConfig_def)

text \<open>
  Claim C6.  \<open>checkArbitrage\<close> calls \<open>updatePositionSpread\<close> before the test of the minimum
  spread, but after the \<open>return\<close> of the branch without a crossing.  At a detector whose
  executor holds an open pair on ETHUSDT that has never been refreshed: a tick for ETHUSDT
  without a crossing (asks 100.5 and 100.55, bids 100.4 and 100.45) only counts the comparison
  and leaves the executor, and so the pair, as it was; a tick with a crossing under the
  minimum spread (ask 100.5, bid 100.6) counts no opportunity and refreshes the pair with the
  prices 100.5 and 100.6.
\<close>

theorem tick_without_crossing_is_not_propagated:
  "direction ethBinanceTick ethMexcTick = None
   \<and> openPositions (tradeExecutor onePairDetector) = [(''pair-1'', ethPair)]
   \<and> pair_symbol ethPair = ''ETHUSDT'' \<and> pair_status ethPair = OPEN
   \<and> pair_currentLongPrice ethPair = None \<and> pair_currentShortPrice ethPair = None
   \<and> pair_currentSpread ethPair = None
   \<and> checkArbitrage ''pair-2'' ''long-2'' ''short-2'' ethBinanceTick ethMexcTick ''ETHUSDT''
        2000 onePairDetector
       = Finished (onePairDetector\<lparr>totalComparisons := 2\<rparr>)
   \<and> isFinished (checkArbitrage ''pair-2'' ''long-2'' ''short-2'' ethBinanceTick
                    ethMexcCrossTick ''ETHUSDT'' 2000 onePairDetector)
   \<and> openPositions (tradeExecutor (stateOf
        (checkArbitrage ''pair-2'' ''long-2'' ''short-2'' ethBinanceTick ethMexcCrossTick
           ''ETHUSDT'' 2000 onePairDetector)))
       = [(''pair-1'', refreshedPair ethPair 100.5 100.6)]
   \<and> opportunitiesFound (stateOf
        (checkArbitrage ''pair-2'' ''long-2'' ''short-2'' ethBinanceTick ethMexcCrossTick
           ''ETHUSDT'' 2000 onePairDetector)) = 1
   \<and> pair_currentLongPrice (refreshedPair ethPair 100.5 100.6) = Some 100.5
   \<and> pair_currentShortPrice (refreshedPair ethPair 100.5 100.6) = Some 100.6"
proof -
  have n: "direction ethBinanceTick ethMexcTick = None"
    by (simp add: direction_def ethTick_eval)
  have a: "checkArbitrage ''pair-2'' ''long-2'' ''short-2'' ethBinanceTick ethMexcTick ''ETHUSDT''
        2000 onePairDetector
       = Finished (onePairDetector\<lparr>totalComparisons := 2\<rparr>)"
    by (simp add: checkArbitrage_no_crossing[OF n] onePairDetector_eval)
  have c: "checkArbitrage ''pair-2'' ''long-2'' ''short-2'' ethBinanceTick ethMexcCrossTick
           ''ETHUSDT'' 2000 onePairDetector
       = Finished (onePairDetector
           \<lparr>totalComparisons := 2,
            tradeExecutor := onePairExecutor
              \<lparr>openPositions := [(''pair-1'', refreshedPair ethPair 100.5 100.6)]\<rparr>\<rparr>)"
    by (simp add: checkArbitrage_def direction_def ethTick_eval Let_def updatePositionSpread_def
          updateOne_def onePairDetector_eval onePairExecutor_pair onePairExecutor_eval(1)
          ethPair_eval zeroFeeConfig_more zeroFeeConfig_minSpread checkPriceConvergence_def
          spreadPercentOf_def)
  have r: "pair_currentLongPrice (refreshedPair ethPair b s) = Some b"
    "pair_currentShortPrice (refreshedPair ethPair b s) = Some s" for b s
    by (simp_all add: refreshedPair_def Let_def ethPair_fresh)
  show ?thesis
    unfolding a c
    by (simp add: n r onePairDetector_eval onePairExecutor_pair ethPair_eval ethPair_fresh)
qed

section \<open>Evaluation of the live executor and of the event loop\<close>

lemma otherOpportunity_eval:
  "op_symbol otherOpportunity = ''ETHUSDT''"
  "op_buyPrice otherOpportunity = 100"
  "op_sellPrice otherOpportunity = 101"
  "op_buyQtyAvailable otherOpportunity = Some 20"
  "op_sellQtyAvailable otherOpportunity = None"
  "op_buyExchange otherOpportunity = Binance"
  "op_sellExchange otherOpportunity = Mexc"
  "op_spreadPercent otherOpportunity = 1"
  by (simp_all add: otherOpportunity_def exampleOpportunity_eval)

lemma livePair_eval:
  "pair_id livePair = ''pair-1''" "pair_symbol livePair = ''ETHUSDT''"
  "pair_status livePair = OPEN"
  "pos_exchange (pair_longPosition livePair) = Binance"
  "pos_exchange (pair_shortPosition livePair) = Mexc"
  "pos_quantity (pair_longPosition livePair) = 1"
  "pos_quantity (pair_shortPosition livePair) = 100 / 101"
  "pos_entryPrice (pair_longPosition livePair) = 100"
  "pos_entryPrice (pair_shortPosition livePair) = 101"
  by (simp_all add: livePair_def makePositionPair_def makeLongPosition_def makeShortPosition_def
        calculateExecutionPrice_def Let_def otherOpportunity_eval liveConfig_eval)

lemma livePairExecutor_eval:
  "config livePairExecutor = liveConfig" "binance livePairExecutor" "mexc livePairExecutor"
  "pendingOrders livePairExecutor = 0" "lastOrderTime livePairExecutor = 1505"
  "currentBalance livePairExecutor = 5000"
  "openPositions livePairExecutor = [(''pair-1'', livePair)]"
  "closedPositions livePairExecutor = []" "skipCalls livePairExecutor = []"
  "tradingErrors livePairExecutor = []"
  by (simp_all add: livePairExecutor_def liveOpenAnswers_def openPositionPair_def
        openAfterWait_def openLive_def setBinanceLeverage_def setMexcLeverage_def
        openLongLeg_def openInterLegDelay_def openShortLeg_def openCommit_def ordersCreated_def
        updateRealBalance_def fetchMexcBalance_def setBalanceFromVenues_def Let_def
        liveExecutor_eval liveConfig_eval otherOpportunity_eval livePair_def[symmetric]
        livePair_eval)







lemma racePair_eval:
  "pair_id raceFirstPair = ''pair-2''" "pair_symbol raceFirstPair = ''BTCUSDT''"
  "pair_status raceFirstPair = OPEN"
  "pos_exchange (pair_longPosition raceFirstPair) = Binance"
  "pos_exchange (pair_shortPosition raceFirstPair) = Mexc"
  "pos_quantity (pair_longPosition raceFirstPair) = 1"
  "pos_quantity (pair_shortPosition raceFirstPair) = 100 / 101"
  "pair_id raceSecondPair = ''pair-3''" "pair_symbol raceSecondPair = ''BTCUSDT''"
  "pair_status raceSecondPair = OPEN"
  "pos_exchange (pair_longPosition raceSecondPair) = Binance"
  "pos_exchange (pair_shortPosition raceSecondPair) = Mexc"
  "pos_quantity (pair_longPosition raceSecondPair) = 1"
  "pos_quantity (pair_shortPosition raceSecondPair) = 100 / 101"
  by (simp_all add: raceFirstPair_def raceSecondPair_def makePositionPair_def
        makeLongPosition_def makeShortPosition_def calculateExecutionPrice_def Let_def
        exampleOpportunity_eval liveConfig_eval)

lemma race_invocations_eval:
  "pending (runEvents raceInvocations livePairSystem)
     = [BinanceSetLeverage ''BTCUSDT'' 1, BinanceSetLeverage ''BTCUSDT'' 1]"
  "pendingOrders (sys_state (runEvents raceInvocations livePairSystem)) = 2"
  "skipCalls (sys_state (runEvents raceInvocations livePairSystem)) = []"
  by (simp_all add: runEvents_def pending_def raceInvocations_def
        livePairSystem_def handleNewOpportunity_def canOpenNewPosition_def
        openPositionPair_def openAfterWait_def openLive_def setBinanceLeverage_def
        MIN_ORDER_INTERVAL_MS_def Let_def
        livePairExecutor_eval liveConfig_eval exampleOpportunity_eval livePair_eval
        raceFirstPair_def[symmetric] raceSecondPair_def[symmetric] racePair_eval)

lemma race_eval:
  "pending (runEvents (raceInvocations @ raceAnswers) livePairSystem) = []"
  "openPositions (sys_state (runEvents (raceInvocations @ raceAnswers) livePairSystem))
     = [(''pair-1'', livePair), (''pair-2'', raceFirstPair), (''pair-3'', raceSecondPair)]"
  "skipCalls (sys_state (runEvents (raceInvocations @ raceAnswers) livePairSystem)) = []"
  by (simp_all add: runEvents_def pending_def raceInvocations_def raceAnswers_def
        livePairSystem_def handleNewOpportunity_def canOpenNewPosition_def
        openPositionPair_def openAfterWait_def openLive_def setBinanceLeverage_def
        setMexcLeverage_def openLongLeg_def openInterLegDelay_def openShortLeg_def
        openCommit_def ordersCreated_def updateRealBalance_def fetchMexcBalance_def
        setBalanceFromVenues_def
        MIN_ORDER_INTERVAL_MS_def Let_def
        livePairExecutor_eval liveConfig_eval exampleOpportunity_eval livePair_eval
        raceFirstPair_def[symmetric] raceSecondPair_def[symmetric] racePair_eval)


section \<open>The guard of the order block\<close>














section \<open>The opportunity gate\<close>

text \<open>The gate returns without a trace when a pair of the symbol is in the map.\<close>

lemma handleNewOpportunity_symbol_open:
  assumes "(pairId', pair) \<in> set (openPositions ex)" and "pair_symbol pair = op_symbol opportunity"
  shows "handleNewOpportunity pairId longId shortId opportunity now ex = Finished ex"
proof -
  from assms have "list_ex (\<lambda>entry. pair_symbol (snd entry) = op_symbol opportunity)
                     (openPositions ex)"
    unfolding list_ex_iff by (intro bexI[of _ "(pairId', pair)"]) simp_all
  then show ?thesis by (simp add: handleNewOpportunity_def)
qed

text \<open>
  Claim C1.  The gate looks at the map only, and \<open>openPositionPair\<close> tests the guard before
  its rate-limit wait and raises it after the wait.  At the live executor whose last order was
  made at 1505 and whose map holds a pair on ETHUSDT only, two opportunities for BTCUSDT that
  are handled at 2000 and at 2100 both pass the gate and the guard and both wait; after the two
  waits both opens are in the order block with the guard at two, neither is skipped, and at the
  end the map holds two open pairs on BTCUSDT.
\<close>

theorem two_opens_during_rate_limit_wait_pass_the_gate:
  "openPositions livePairExecutor = [(''pair-1'', livePair)]
   \<and> pair_symbol livePair = ''ETHUSDT''
   \<and> lastOrderTime livePairExecutor = 1505
   \<and> pendingOrders livePairExecutor = 0
   \<and> pending (runEvents raceInvocations livePairSystem)
       = [BinanceSetLeverage ''BTCUSDT'' 1, BinanceSetLeverage ''BTCUSDT'' 1]
   \<and> pendingOrders (sys_state (runEvents raceInvocations livePairSystem)) = 2
   \<and> skipCalls (sys_state (runEvents raceInvocations livePairSystem)) = []
   \<and> pending (runEvents (raceInvocations @ raceAnswers) livePairSystem) = []
   \<and> openPositions (sys_state (runEvents (raceInvocations @ raceAnswers) livePairSystem))
       = [(''pair-1'', livePair), (''pair-2'', raceFirstPair), (''pair-3'', raceSecondPair)]
   \<and> pair_symbol raceFirstPair = ''BTCUSDT'' \<and> pair_status raceFirstPair = OPEN
   \<and> pair_symbol raceSecondPair = ''BTCUSDT'' \<and> pair_status raceSecondPair = OPEN
   \<and> skipCalls (sys_state (runEvents (raceInvocations @ raceAnswers) livePairSystem)) = []"
  by (simp add: race_invocations_eval race_eval livePairExecutor_eval livePair_eval
        racePair_eval)

end
